theory Spec2Isabelle
  imports Complex_Main "HOL-Library.Log_Nat"
begin

section \<open>Numbers of the grade calculator\<close>

text \<open>
  The source (src/utils/storageUtils.ts) computes with JavaScript numbers, the binary64
  format of IEEE 754. A finite number other than the negative zero is \<open>Num r\<close>, with \<open>r\<close>
  the rational it stands for; the negative zero, \<^verbatim>\<open>NaN\<close> and the two infinities are values
  of their own. Every operation rounds its exact result to the nearest number of the
  format, ties to the even significand, as the language prescribes, so (3 + 1.3) / 4 is
  the number just below 1.075 and 1e308 * 2 is \<^verbatim>\<open>Infinity\<close>.
\<close>

datatype number = Num rat | NegZero | NaN | PosInf | NegInf

text \<open>
  A property that TypeScript types as \<^verbatim>\<open>number\<close> holds a number, or \<^verbatim>\<open>null\<close> once a
  non-finite number went through \<^verbatim>\<open>JSON.stringify\<close> and \<^verbatim>\<open>JSON.parse\<close>.
\<close>

datatype num_prop = Null | N number

subsection \<open>Rounding to binary64\<close>

definition pow2 :: "int \<Rightarrow> rat" where
  "pow2 k = (if 0 \<le> k then 2 ^ nat k else 1 / 2 ^ nat (- k))"

text \<open>The exponent of a positive rational: the \<open>e\<close> with \<open>2\<^sup>e \<le> m < 2\<^sup>e\<^sup>+\<^sup>1\<close>.\<close>

definition ilog2 :: "rat \<Rightarrow> int" where
  "ilog2 m = (if 1 \<le> m then bitlen \<lfloor>m\<rfloor> - 1 else - bitlen (\<lceil>1 / m\<rceil> - 1))"

definition round_half_even :: "rat \<Rightarrow> int" where
  "round_half_even t =
     (let f = \<lfloor>t\<rfloor>; r = t - rat_of_int f
      in if r < 1 / 2 then f else if 1 / 2 < r then f + 1 else if even f then f else f + 1)"

text \<open>
  The nearest magnitude with a significand of 53 bits and an exponent of at least
  \<open>-1022\<close> (below that the spacing stays \<open>2\<^sup>-\<^sup>1\<^sup>0\<^sup>7\<^sup>4\<close>: the subnormal numbers).
\<close>

definition binary64_magnitude :: "rat \<Rightarrow> rat" where
  "binary64_magnitude m =
     (if m = 0 then 0
      else (let e = max (ilog2 m) (- 1022); q = pow2 (e - 52)
            in rat_of_int (round_half_even (m / q)) * q))"

definition infinity :: "bool \<Rightarrow> number" where
  "infinity neg = (if neg then NegInf else PosInf)"

definition zero :: "bool \<Rightarrow> number" where
  "zero neg = (if neg then NegZero else Num 0)"

text \<open>
  The number for a sign and an exact magnitude: a rounded magnitude of \<open>2\<^sup>1\<^sup>0\<^sup>2\<^sup>4\<close> or more is
  an infinity, a rounded magnitude of 0 a zero of that sign.
\<close>

definition binary64 :: "bool \<Rightarrow> rat \<Rightarrow> number" where
  "binary64 neg m =
     (let r = binary64_magnitude m
      in if r = 0 then zero neg
         else if 1024 \<le> ilog2 r then infinity neg
         else Num (if neg then - r else r))"

text \<open>The number that a decimal numeral denotes, such as 2.67 or 1.3.\<close>

definition decimal :: "rat \<Rightarrow> number" where
  "decimal r = binary64 (r < 0) \<bar>r\<bar>"

subsection \<open>The operations of the language\<close>

fun negative :: "number \<Rightarrow> bool" where
  "negative (Num r) = (r < 0)"
| "negative NegZero = True"
| "negative NegInf = True"
| "negative PosInf = False"
| "negative NaN = False"

text \<open>The mathematical value of a finite number; both zeros have the value 0.\<close>

fun finite_value :: "number \<Rightarrow> rat option" where
  "finite_value (Num r) = Some r"
| "finite_value NegZero = Some 0"
| "finite_value _ = None"

text \<open>\<^verbatim>\<open>ToNumber\<close> of the language: \<^verbatim>\<open>null\<close> counts as 0 in arithmetic.\<close>

fun toNumber :: "num_prop \<Rightarrow> number" where
  "toNumber Null = Num 0"
| "toNumber (N x) = x"

text \<open>\<^verbatim>\<open>ToBoolean\<close>: \<^verbatim>\<open>null\<close>, \<^verbatim>\<open>NaN\<close> and both zeros are falsy.\<close>

fun truthy :: "num_prop \<Rightarrow> bool" where
  "truthy Null = False"
| "truthy (N NaN) = False"
| "truthy (N NegZero) = False"
| "truthy (N (Num r)) = (r \<noteq> 0)"
| "truthy (N PosInf) = True"
| "truthy (N NegInf) = True"

text \<open>
  Strict equality \<^verbatim>\<open>===\<close> on numbers: \<^verbatim>\<open>NaN\<close> equals nothing, the two zeros equal each
  other.
\<close>

definition strict_eq :: "number \<Rightarrow> number \<Rightarrow> bool" where
  "strict_eq x y =
     (x \<noteq> NaN \<and> y \<noteq> NaN \<and>
      (x = y \<or> (finite_value x = Some 0 \<and> finite_value y = Some 0)))"

text \<open>
  Addition. An exact sum of 0 is the positive zero unless both summands are the
  negative zero; infinities of opposite sign add to \<^verbatim>\<open>NaN\<close>.
\<close>

definition js_add :: "number \<Rightarrow> number \<Rightarrow> number" where
  "js_add x y =
     (if x = NaN \<or> y = NaN then NaN
      else (case (finite_value x, finite_value y) of
              (Some a, Some b) \<Rightarrow>
                (if a + b = 0 then zero (x = NegZero \<and> y = NegZero)
                 else binary64 (a + b < 0) \<bar>a + b\<bar>)
            | (Some a, None) \<Rightarrow> y
            | (None, Some b) \<Rightarrow> x
            | (None, None) \<Rightarrow> (if x = y then x else NaN)))"

text \<open>Multiplication. The sign is the product of the signs; infinity times zero is \<^verbatim>\<open>NaN\<close>.\<close>

definition js_mul :: "number \<Rightarrow> number \<Rightarrow> number" where
  "js_mul x y =
     (if x = NaN \<or> y = NaN then NaN
      else (case (finite_value x, finite_value y) of
              (Some a, Some b) \<Rightarrow> binary64 (negative x \<noteq> negative y) \<bar>a * b\<bar>
            | (Some a, None) \<Rightarrow> (if a = 0 then NaN else infinity (negative x \<noteq> negative y))
            | (None, Some b) \<Rightarrow> (if b = 0 then NaN else infinity (negative x \<noteq> negative y))
            | (None, None) \<Rightarrow> infinity (negative x \<noteq> negative y)))"

text \<open>
  Division. A finite non-zero number over a zero is an infinity, zero over zero and
  infinity over infinity are \<^verbatim>\<open>NaN\<close>, a finite number over an infinity is a zero.
\<close>

definition js_div :: "number \<Rightarrow> number \<Rightarrow> number" where
  "js_div x y =
     (if x = NaN \<or> y = NaN then NaN
      else (case (finite_value x, finite_value y) of
              (Some a, Some b) \<Rightarrow>
                (if b \<noteq> 0 then binary64 (negative x \<noteq> negative y) \<bar>a / b\<bar>
                 else if a = 0 then NaN
                 else infinity (negative x \<noteq> negative y))
            | (Some a, None) \<Rightarrow> zero (negative x \<noteq> negative y)
            | (None, Some b) \<Rightarrow> infinity (negative x \<noteq> negative y)
            | (None, None) \<Rightarrow> NaN))"

text \<open>
  \<^verbatim>\<open>Number.parseFloat(x.toFixed(2))\<close>. \<^verbatim>\<open>toFixed\<close> prints \<^verbatim>\<open>NaN\<close> and the infinities by
  name and a number of magnitude \<open>10\<^sup>2\<^sup>1\<close> or more in full, and \<^verbatim>\<open>parseFloat\<close> reads all of
  them back. Otherwise \<^verbatim>\<open>toFixed\<close> takes the exact value of the number, picks the integer
  \<open>n\<close> with \<open>n / 100\<close> nearest to its magnitude, the larger one of two, and prints \<open>n / 100\<close>
  with a minus sign when the value is below 0; \<^verbatim>\<open>parseFloat\<close> returns the number nearest
  to what is printed.
\<close>

definition toFixed2 :: "number \<Rightarrow> number" where
  "toFixed2 x =
     (case finite_value x of
        None \<Rightarrow> x
      | Some r \<Rightarrow>
          (if 10 ^ 21 \<le> \<bar>r\<bar> then x
           else binary64 (r < 0) (rat_of_int \<lfloor>\<bar>r\<bar> * 100 + 1 / 2\<rfloor> / 100)))"

section \<open>Data model\<close>

text \<open>
  Modelled from the spec: the declarations of \<^verbatim>\<open>Grade\<close> and \<^verbatim>\<open>Subject\<close> live in
  \<^verbatim>\<open>src/types/grades\<close>, which is not among the sources; section 6 of the specification
  gives their fields. An optional property is an \<open>option\<close>; \<^verbatim>\<open>grades\<close> is optional here
  because the operations test it for absence.
\<close>

record grade =
  grade_value :: num_prop
  grade_type :: string
  weight :: "num_prop option"
  date :: string

text \<open>
  Modelled from the spec: \<^verbatim>\<open>Subject\<close>, declared in the same absent file. The property
  \<^verbatim>\<open>id\<close> is \<open>subject_id\<close> here, \<^verbatim>\<open>value\<close> and \<^verbatim>\<open>type\<close> of a grade are \<open>grade_value\<close> and
  \<open>grade_type\<close>.
\<close>

record subject =
  subject_id :: string
  name :: string
  grades :: "grade list option"
  averageGrade :: "num_prop option"

section \<open>calculateAverage\<close>

record acc =
  weightedSum :: number
  totalWeight :: number

text \<open>The expression \<^verbatim>\<open>grade.weight || 1.0\<close>.\<close>

definition weight_or_default :: "grade \<Rightarrow> number" where
  "weight_or_default g =
     (case weight g of
        None \<Rightarrow> Num 1
      | Some w \<Rightarrow> (if truthy w then toNumber w else Num 1))"

text \<open>The callback of \<^verbatim>\<open>grades.reduce\<close>.\<close>

definition reduce_step :: "acc \<Rightarrow> grade \<Rightarrow> acc" where
  "reduce_step a g =
     (let w = weight_or_default g in
      \<lparr>weightedSum = js_add (weightedSum a) (js_mul (toNumber (grade_value g)) w),
       totalWeight = js_add (totalWeight a) w\<rparr>)"

definition calculateAverage :: "grade list option \<Rightarrow> number" where
  "calculateAverage gs_opt =
     (case gs_opt of
        None \<Rightarrow> Num 0
      | Some gs \<Rightarrow>
          (if length gs = 0 then Num 0
           else (let r = foldl reduce_step \<lparr>weightedSum = Num 0, totalWeight = Num 0\<rparr> gs
                 in toFixed2 (js_div (weightedSum r) (totalWeight r)))))"

subsection \<open>The formula of the specification\<close>

text \<open>Sums run left to right from 0, as the accumulation does.\<close>

definition js_sum :: "number list \<Rightarrow> number" where
  "js_sum xs = foldl js_add (Num 0) xs"

text \<open>
  \<open>round2 (\<Sum> value\<^sub>i \<times> weight\<^sub>i / \<Sum> weight\<^sub>i)\<close> for a given reading \<open>wt\<close> of the weight of
  a grade.
\<close>

definition weighted_average :: "(grade \<Rightarrow> number) \<Rightarrow> grade list \<Rightarrow> number" where
  "weighted_average wt gs =
     toFixed2 (js_div (js_sum (map (\<lambda>g. js_mul (toNumber (grade_value g)) (wt g)) gs))
                      (js_sum (map wt gs)))"

text \<open>The weight as the specification words it: the explicit weight, 1.0 when there is none.\<close>

definition spec_weight :: "grade \<Rightarrow> number" where
  "spec_weight g = (case weight g of None \<Rightarrow> Num 1 | Some w \<Rightarrow> toNumber w)"

definition spec_computeAverage :: "grade list \<Rightarrow> number" where
  "spec_computeAverage gs = (if gs = [] then Num 0 else weighted_average spec_weight gs)"

text \<open>
  The same formula read in exact arithmetic, for grades whose values and weights are
  finite: exact products, sums and quotient, rounded half up to two decimals.
\<close>

definition exact_value :: "number \<Rightarrow> rat" where
  "exact_value x = (case finite_value x of Some r \<Rightarrow> r | None \<Rightarrow> 0)"

definition exact_round2 :: "rat \<Rightarrow> rat" where
  "exact_round2 r = sgn r * rat_of_int \<lfloor>\<bar>r\<bar> * 100 + 1 / 2\<rfloor> / 100"

definition exact_computeAverage :: "grade list \<Rightarrow> rat" where
  "exact_computeAverage gs =
     (if gs = [] then 0
      else exact_round2
             (sum_list (map (\<lambda>g. exact_value (toNumber (grade_value g)) * exact_value (spec_weight g)) gs)
              / sum_list (map (\<lambda>g. exact_value (spec_weight g)) gs)))"

section \<open>The browser store, the notifications and the cloud peer\<close>

text \<open>
  An operation either returns a value or throws; for an \<^verbatim>\<open>async\<close> function, throwing is
  the rejection of its promise.
\<close>

datatype 'a outcome = Returns 'a | Throws

text \<open>
  The text kept under \<^verbatim>\<open>STORAGE_KEY\<close>, by what \<^verbatim>\<open>JSON.parse\<close> makes of it: the empty
  string, a text that does not parse, a text that parses to something other than an
  array, or the serialisation of an array of subjects. The source declares the parsed
  array as \<^verbatim>\<open>Subject[]\<close> without checking its elements; an array of anything else is
  outside this type.
\<close>

datatype document = EmptyText | Malformed | NotAnArray | SubjectArray "subject list"

datatype parsed = NoArray | Array "subject list"

text \<open>
  \<^verbatim>\<open>JSON.stringify\<close> writes \<^verbatim>\<open>NaN\<close> and the infinities as \<^verbatim>\<open>null\<close>, the negative zero as
  \<^verbatim>\<open>0\<close>, any other number so that \<^verbatim>\<open>JSON.parse\<close> reads it back, and leaves an absent
  property out.
\<close>

fun wire_num :: "num_prop \<Rightarrow> num_prop" where
  "wire_num (N (Num r)) = N (Num r)"
| "wire_num (N NegZero) = N (Num 0)"
| "wire_num _ = Null"

definition wire_grade :: "grade \<Rightarrow> grade" where
  "wire_grade g = g\<lparr>grade_value := wire_num (grade_value g), weight := map_option wire_num (weight g)\<rparr>"

definition wire_subject :: "subject \<Rightarrow> subject" where
  "wire_subject s =
     s\<lparr>grades := map_option (map wire_grade) (grades s),
       averageGrade := map_option wire_num (averageGrade s)\<rparr>"

definition JSON_stringify :: "subject list \<Rightarrow> document" where
  "JSON_stringify subjects = SubjectArray (map wire_subject subjects)"

fun JSON_parse :: "document \<Rightarrow> parsed outcome" where
  "JSON_parse EmptyText = Throws"
| "JSON_parse Malformed = Throws"
| "JSON_parse NotAnArray = Returns NoArray"
| "JSON_parse (SubjectArray ss) = Returns (Array ss)"

datatype event = SubjectsUpdated | SyncPreferenceChanged

text \<open>What a call of \<^verbatim>\<open>getSubjectsFromCloud\<close> resolves to: a falsy value, a value that is
  not an array, or an array of subjects.\<close>

datatype cloud_value = CloudNothing | CloudNotArray | CloudArray "subject list"

text \<open>
  The surroundings of the module, fixed during an operation: the capability flag and the
  two cloud functions imported from \<^verbatim>\<open>@/lib/appwrite\<close> (not among the sources, hence
  parameters), whether there is a \<^verbatim>\<open>window\<close> (and with it a \<^verbatim>\<open>localStorage\<close>), and
  which texts the store accepts (\<^verbatim>\<open>setItem\<close> throws when the quota is exceeded).
\<close>

record env =
  ENABLE_CLOUD_FEATURES :: bool
  has_window :: bool
  setItem_ok :: "document \<Rightarrow> bool"
  getSubjectsFromCloud :: "string \<Rightarrow> cloud_value outcome"
  syncSubjectsToCloud :: "string \<Rightarrow> subject list \<Rightarrow> bool outcome"

text \<open>
  The mutable state: the item under \<^verbatim>\<open>STORAGE_KEY\<close>, the events dispatched so far, and
  the events that saves nobody awaits will dispatch once their cloud push has settled.
\<close>

record world =
  storage :: "document option"
  events :: "event list"
  pending :: "event list"

type_synonym 'a js = "world \<Rightarrow> 'a outcome \<times> world"

definition returns :: "'a \<Rightarrow> 'a js" where
  "returns x w = (Returns x, w)"

definition andThen :: "'a js \<Rightarrow> ('a \<Rightarrow> 'b js) \<Rightarrow> 'b js" where
  "andThen m f w = (case m w of (Throws, w') \<Rightarrow> (Throws, w') | (Returns x, w') \<Rightarrow> f x w')"

text \<open>\<^verbatim>\<open>try { body } catch { handler }\<close>.\<close>

definition tryCatch :: "'a js \<Rightarrow> 'a js \<Rightarrow> 'a js" where
  "tryCatch body handler w = (case body w of (Throws, w') \<Rightarrow> handler w' | r \<Rightarrow> r)"

text \<open>The call of an imported function that does not touch the state of this module.\<close>

definition call :: "'a outcome \<Rightarrow> 'a js" where
  "call r w = (r, w)"

definition localStorage_setItem :: "env \<Rightarrow> document \<Rightarrow> unit js" where
  "localStorage_setItem e doc w =
     (if has_window e \<and> setItem_ok e doc then (Returns (), w\<lparr>storage := Some doc\<rparr>)
      else (Throws, w))"

definition localStorage_getItem :: "env \<Rightarrow> document option js" where
  "localStorage_getItem e w = (if has_window e then (Returns (storage w), w) else (Throws, w))"

definition window_dispatchEvent :: "env \<Rightarrow> event \<Rightarrow> unit js" where
  "window_dispatchEvent e ev w =
     (if has_window e then (Returns (), w\<lparr>events := events w @ [ev]\<rparr>) else (Throws, w))"

section \<open>The operations of storageUtils.ts\<close>

definition initializeSubjects :: "subject list" where
  "initializeSubjects =
     [\<lparr>subject_id = ''math'', name = ''Mathematics'', grades = Some [], averageGrade = None\<rparr>,
      \<lparr>subject_id = ''german'', name = ''German'', grades = Some [], averageGrade = None\<rparr>,
      \<lparr>subject_id = ''english'', name = ''English'', grades = Some [], averageGrade = None\<rparr>,
      \<lparr>subject_id = ''science'', name = ''Science'', grades = Some [], averageGrade = None\<rparr>,
      \<lparr>subject_id = ''history'', name = ''History'', grades = Some [], averageGrade = None\<rparr>]"

definition notifySubjectsUpdated :: "env \<Rightarrow> unit js" where
  "notifySubjectsUpdated e =
     (if has_window e then window_dispatchEvent e SubjectsUpdated else returns ())"

text \<open>
  The condition \<^verbatim>\<open>ENABLE_CLOUD_FEATURES && userId && syncEnabled\<close>, with the user
  identifier it lets through. An empty string is falsy.
\<close>

definition cloud_user :: "env \<Rightarrow> string option \<Rightarrow> bool option \<Rightarrow> string option" where
  "cloud_user e userId syncEnabled =
     (case userId of
        None \<Rightarrow> None
      | Some uid \<Rightarrow>
          (if ENABLE_CLOUD_FEATURES e \<and> uid \<noteq> [] \<and> syncEnabled = Some True then Some uid
           else None))"

text \<open>
  \<^verbatim>\<open>saveSubjectsToStorage\<close> is an \<^verbatim>\<open>async\<close> function with one \<^verbatim>\<open>await\<close>, on the cloud
  push. What it does before that point happens at the call: the serialisation, the
  write, the notification and the test for a cloud user. The result is the user to push
  for, if any.
\<close>

definition save_before_await ::
  "env \<Rightarrow> subject list \<Rightarrow> string option \<Rightarrow> bool option \<Rightarrow> string option js" where
  "save_before_await e subjects userId syncEnabled =
     (let subjectsJson = JSON_stringify subjects in
      andThen (localStorage_setItem e subjectsJson) (\<lambda>_.
      andThen (notifySubjectsUpdated e) (\<lambda>_.
      returns (cloud_user e userId syncEnabled))))"

text \<open>The inner \<^verbatim>\<open>try\<close> statement: the awaited push and what follows once it has settled.\<close>

definition save_cloud_push :: "env \<Rightarrow> subject list \<Rightarrow> string \<Rightarrow> unit js" where
  "save_cloud_push e subjects uid =
     tryCatch
       (andThen (call (syncSubjectsToCloud e uid subjects)) (\<lambda>syncSuccess.
          if \<not> syncSuccess then window_dispatchEvent e SyncPreferenceChanged
          else returns ()))
       (window_dispatchEvent e SyncPreferenceChanged)"

text \<open>The function as its caller sees it when the promise is awaited.\<close>

definition saveSubjectsToStorage ::
  "env \<Rightarrow> subject list \<Rightarrow> string option \<Rightarrow> bool option \<Rightarrow> bool js" where
  "saveSubjectsToStorage e subjects userId syncEnabled =
     tryCatch
       (andThen (save_before_await e subjects userId syncEnabled) (\<lambda>push.
        andThen
          (case push of
             None \<Rightarrow> returns ()
           | Some uid \<Rightarrow> save_cloud_push e subjects uid) (\<lambda>_.
        returns True)))
       (returns False)"

text \<open>
  The function when its promise is dropped, as \<^verbatim>\<open>getSubjectsFromStorage\<close> calls it. The
  part before the \<^verbatim>\<open>await\<close> runs at the call. The rest runs when the push has settled,
  which the caller does not wait for: the events it dispatches are recorded as pending,
  in no order with the events dispatched in the meantime. Result and rejection are lost.
\<close>

definition dropped_save ::
  "env \<Rightarrow> subject list \<Rightarrow> string option \<Rightarrow> bool option \<Rightarrow> unit js" where
  "dropped_save e subjects userId syncEnabled w =
     (case save_before_await e subjects userId syncEnabled w of
        (Returns (Some uid), w1) \<Rightarrow>
          (Returns (),
           w1\<lparr>pending := pending w1 @
                 events (snd (save_cloud_push e subjects uid (w1\<lparr>events := []\<rparr>)))\<rparr>)
      | (_, w1) \<Rightarrow> (Returns (), w1))"

subsection \<open>The migration pass, on the objects it mutates\<close>

text \<open>
  \<^verbatim>\<open>JSON.parse\<close> builds fresh subject objects; the array \<^verbatim>\<open>subjects\<close> holds references to
  them. The callback of \<^verbatim>\<open>subjects.map\<close> assigns to the properties of the object it is
  given and returns that same object, so \<^verbatim>\<open>migratedSubjects\<close> is a new array of the same
  references. A heap of subject objects makes this sharing explicit. The grades of a
  subject are reachable from that subject alone and are kept as its value.
\<close>

type_synonym ref = nat
type_synonym heap = "ref \<Rightarrow> subject option"

definition alloc :: "subject list \<Rightarrow> ref list \<times> heap" where
  "alloc ss = ([0..<length ss], (\<lambda>a. if a < length ss then Some (ss ! a) else None))"

text \<open>
  The value of an array of references. Every reference of an array built by \<open>alloc\<close>
  denotes an object; a reference that denotes none would be skipped.
\<close>

definition read_subjects :: "heap \<Rightarrow> ref list \<Rightarrow> subject list" where
  "read_subjects h refs = List.map_filter h refs"

definition migrate_grade :: "grade \<Rightarrow> grade" where
  "migrate_grade g =
     (if weight g = None
      then g\<lparr>weight := Some (N (if grade_type g = ''Test'' then Num 2 else Num 1))\<rparr>
      else g)"

definition migrate_subject :: "heap \<Rightarrow> ref \<Rightarrow> heap" where
  "migrate_subject h a =
     (case h a of
        None \<Rightarrow> h
      | Some s \<Rightarrow>
          (case grades s of
             None \<Rightarrow> h
           | Some gs \<Rightarrow>
               (if length gs > 0 then
                  (let s1 = s\<lparr>grades := Some (map migrate_grade gs)\<rparr>;
                       s2 = s1\<lparr>averageGrade := Some (N (calculateAverage (grades s1)))\<rparr>
                   in h(a := Some s2))
                else h)))"

fun subjects_map_migrate :: "ref list \<Rightarrow> heap \<Rightarrow> ref list \<times> heap" where
  "subjects_map_migrate [] h = ([], h)"
| "subjects_map_migrate (a # as) h =
     (let h1 = migrate_subject h a;
          (bs, h2) = subjects_map_migrate as h1
      in (a # bs, h2))"

text \<open>The pass as a function of the parsed collection: what \<^verbatim>\<open>migratedSubjects\<close> holds.\<close>

definition migration_pass :: "subject list \<Rightarrow> subject list" where
  "migration_pass ss =
     (let (subjects, h0) = alloc ss;
          (migratedSubjects, h1) = subjects_map_migrate subjects h0
      in read_subjects h1 migratedSubjects)"

subsection \<open>getSubjectsFromStorage\<close>

text \<open>The cloud block: \<open>Some\<close> of the array it returns early with, \<open>None\<close> to go on locally.\<close>

definition cloud_block ::
  "env \<Rightarrow> string option \<Rightarrow> bool option \<Rightarrow> subject list option js" where
  "cloud_block e userId syncEnabled =
     (case cloud_user e userId syncEnabled of
        None \<Rightarrow> returns None
      | Some uid \<Rightarrow>
          tryCatch
            (andThen (call (getSubjectsFromCloud e uid)) (\<lambda>cloudSubjects.
               case cloudSubjects of
                 CloudArray cs \<Rightarrow>
                   (if length cs > 0 then
                      (let subjectsJson = JSON_stringify cs in
                       andThen (localStorage_setItem e subjectsJson) (\<lambda>_. returns (Some cs)))
                    else returns None)
               | _ \<Rightarrow> returns None))
            (returns None))"

definition local_block ::
  "env \<Rightarrow> string option \<Rightarrow> bool option \<Rightarrow> subject list js" where
  "local_block e userId syncEnabled =
     (if \<not> has_window e then returns initializeSubjects
      else
        andThen (localStorage_getItem e) (\<lambda>subjectsJson.
          case subjectsJson of
            None \<Rightarrow>
              andThen (dropped_save e initializeSubjects userId syncEnabled)
                (\<lambda>_. returns initializeSubjects)
          | Some EmptyText \<Rightarrow>
              andThen (dropped_save e initializeSubjects userId syncEnabled)
                (\<lambda>_. returns initializeSubjects)
          | Some doc \<Rightarrow>
              (let parsedArray =
                     (case JSON_parse doc of
                        Returns (Array parsedData) \<Rightarrow> parsedData
                      | Returns NoArray \<Rightarrow> []
                      | Throws \<Rightarrow> [])
               in
               if length parsedArray = 0 then
                 andThen (dropped_save e initializeSubjects userId syncEnabled)
                   (\<lambda>_. returns initializeSubjects)
               else
                 (let (subjects, h0) = alloc parsedArray;
                      (migratedSubjects, h1) = subjects_map_migrate subjects h0
                  in
                  andThen
                    (if JSON_stringify (read_subjects h1 subjects)
                          \<noteq> JSON_stringify (read_subjects h1 migratedSubjects)
                     then dropped_save e (read_subjects h1 migratedSubjects) userId syncEnabled
                     else returns ())
                    (\<lambda>_. returns (read_subjects h1 migratedSubjects))))))"

definition getSubjectsFromStorage ::
  "env \<Rightarrow> string option \<Rightarrow> bool option \<Rightarrow> subject list js" where
  "getSubjectsFromStorage e userId syncEnabled =
     tryCatch
       (andThen (cloud_block e userId syncEnabled) (\<lambda>early.
          case early of
            Some cloudSubjects \<Rightarrow> returns cloudSubjects
          | None \<Rightarrow> local_block e userId syncEnabled))
       (andThen (dropped_save e initializeSubjects userId syncEnabled)
          (\<lambda>_. returns initializeSubjects))"

subsection \<open>addGradeToSubject and deleteGradeFromSubject\<close>

text \<open>
  Both operations copy the subject found, change the copy and put it back at its index.
  \<^verbatim>\<open>deleteGradeFromSubject\<close> returns the promise of the save without awaiting it inside
  its \<^verbatim>\<open>try\<close> block; the save is placed inside the block here all the same, which makes
  no difference since the save never throws (\<open>save_fst\<close> below). Output to the console is
  not part of the state.
\<close>

text \<open>\<^verbatim>\<open>Array.prototype.findIndex\<close>; \<open>None\<close> is the result \<open>-1\<close>.\<close>

fun findIndex :: "('a \<Rightarrow> bool) \<Rightarrow> 'a list \<Rightarrow> nat option" where
  "findIndex P [] = None"
| "findIndex P (x # xs) = (if P x then Some 0 else map_option Suc (findIndex P xs))"

text \<open>\<^verbatim>\<open>xs.filter((_, i) => p(i))\<close>, the indices counted from \<open>k\<close>.\<close>

fun filter_index :: "(nat \<Rightarrow> bool) \<Rightarrow> nat \<Rightarrow> 'a list \<Rightarrow> 'a list" where
  "filter_index p k [] = []"
| "filter_index p k (x # xs) = (if p k then x # filter_index p (Suc k) xs else filter_index p (Suc k) xs)"

definition addGradeToSubject ::
  "env \<Rightarrow> string \<Rightarrow> grade \<Rightarrow> string option \<Rightarrow> bool option \<Rightarrow> bool js" where
  "addGradeToSubject e subjectid g userId syncEnabled =
     tryCatch
       (andThen (getSubjectsFromStorage e userId syncEnabled) (\<lambda>subjects.
          case findIndex (\<lambda>s. subject_id s = subjectid) subjects of
            None \<Rightarrow> returns False
          | Some subjectIndex \<Rightarrow>
              (let updatedSubject = subjects ! subjectIndex;
                   updatedSubject =
                     (if grades updatedSubject = None then updatedSubject\<lparr>grades := Some []\<rparr>
                      else updatedSubject);
                   updatedSubject =
                     updatedSubject\<lparr>grades := map_option (\<lambda>gs. gs @ [g]) (grades updatedSubject)\<rparr>;
                   updatedSubject =
                     updatedSubject\<lparr>averageGrade :=
                       Some (N (calculateAverage (grades updatedSubject)))\<rparr>
               in saveSubjectsToStorage e (subjects[subjectIndex := updatedSubject])
                    userId syncEnabled)))
       (returns False)"

text \<open>
  \<^verbatim>\<open>gradeIndex\<close> is a number; the filter keeps the grade at position \<open>i\<close> unless \<open>i\<close>
  is strictly equal to that number.
\<close>

definition deleteGradeFromSubject ::
  "env \<Rightarrow> string \<Rightarrow> number \<Rightarrow> string option \<Rightarrow> bool option \<Rightarrow> bool js" where
  "deleteGradeFromSubject e subjectid gradeIndex userId syncEnabled =
     tryCatch
       (andThen (getSubjectsFromStorage e userId syncEnabled) (\<lambda>subjects.
          case findIndex (\<lambda>s. subject_id s = subjectid) subjects of
            None \<Rightarrow> returns False
          | Some subjectIndex \<Rightarrow>
              (let updatedSubject = subjects ! subjectIndex in
               case grades updatedSubject of
                 None \<Rightarrow> returns True
               | Some gs \<Rightarrow>
                   (if length gs = 0 then returns True
                    else
                      (let updatedSubject =
                             updatedSubject\<lparr>grades :=
                               Some (filter_index (\<lambda>i. \<not> strict_eq (Num (of_nat i)) gradeIndex) 0 gs)\<rparr>;
                           updatedSubject =
                             updatedSubject\<lparr>averageGrade :=
                               Some (N (calculateAverage (grades updatedSubject)))\<rparr>
                       in saveSubjectsToStorage e (subjects[subjectIndex := updatedSubject])
                            userId syncEnabled)))))
       (returns False)"

section \<open>Descriptions used by the theorems\<close>

text \<open>What the migration callback leaves in a subject object, as a function of its value.\<close>

definition migrated_subject :: "subject \<Rightarrow> subject" where
  "migrated_subject s =
     (case grades s of
        None \<Rightarrow> s
      | Some gs \<Rightarrow>
          (if gs = [] then s
           else s\<lparr>grades := Some (map migrate_grade gs),
                  averageGrade := Some (N (calculateAverage (Some (map migrate_grade gs))))\<rparr>))"

text \<open>The notification of a degraded synchronisation: due when a push was attempted and
  did not return \<^verbatim>\<open>true\<close>.\<close>

definition degraded_sync :: "env \<Rightarrow> subject list \<Rightarrow> string option \<Rightarrow> bool option \<Rightarrow> event list" where
  "degraded_sync e ss u s =
     (case cloud_user e u s of
        None \<Rightarrow> []
      | Some uid \<Rightarrow>
          (if syncSubjectsToCloud e uid ss = Returns True then [] else [SyncPreferenceChanged]))"

text \<open>The three places where the local load falls back to the five default subjects.\<close>

definition reset_to_defaults :: "env \<Rightarrow> string option \<Rightarrow> bool option \<Rightarrow> subject list js" where
  "reset_to_defaults e u s w =
     (Returns initializeSubjects, snd (dropped_save e initializeSubjects u s w))"

text \<open>The position a number denotes in an array, if it denotes one at all.\<close>

definition grade_position :: "number \<Rightarrow> nat option" where
  "grade_position idx =
     (case idx of
        Num r \<Rightarrow> (if 0 \<le> r \<and> r = rat_of_int \<lfloor>r\<rfloor> then Some (nat \<lfloor>r\<rfloor>) else None)
      | NegZero \<Rightarrow> Some 0
      | _ \<Rightarrow> None)"

definition remove_at :: "number \<Rightarrow> 'a list \<Rightarrow> 'a list" where
  "remove_at idx xs =
     (case grade_position idx of
        Some k \<Rightarrow> take k xs @ drop (Suc k) xs
      | None \<Rightarrow> xs)"

definition index_absent :: "number \<Rightarrow> 'a list \<Rightarrow> bool" where
  "index_absent idx xs =
     (case grade_position idx of
        Some k \<Rightarrow> length xs \<le> k
      | None \<Rightarrow> True)"

text \<open>A well-formed collection is one that JSON can carry: its numbers are finite.\<close>

fun finite_prop :: "num_prop \<Rightarrow> bool" where
  "finite_prop (N (Num r)) = True"
| "finite_prop _ = False"

definition well_formed_grade :: "grade \<Rightarrow> bool" where
  "well_formed_grade g =
     (finite_prop (grade_value g) \<and> (case weight g of None \<Rightarrow> True | Some w \<Rightarrow> finite_prop w))"

definition well_formed_subject :: "subject \<Rightarrow> bool" where
  "well_formed_subject s =
     ((case grades s of None \<Rightarrow> True | Some gs \<Rightarrow> list_all well_formed_grade gs) \<and>
      (case averageGrade s of None \<Rightarrow> True | Some a \<Rightarrow> finite_prop a))"

subsection \<open>Concrete environments, grades, subjects and stores\<close>

text \<open>A browser with the cloud features switched off and a store that accepts every text.\<close>

definition browser_env :: env where
  "browser_env =
     \<lparr>ENABLE_CLOUD_FEATURES = False, has_window = True, setItem_ok = (\<lambda>_. True),
      getSubjectsFromCloud = (\<lambda>_. Throws), syncSubjectsToCloud = (\<lambda>_ _. Throws)\<rparr>"

text \<open>A browser with the cloud features on: whether the store accepts a write, what a
  fetch resolves to and what a push resolves to.\<close>

definition cloud_env :: "bool \<Rightarrow> cloud_value outcome \<Rightarrow> bool outcome \<Rightarrow> env" where
  "cloud_env accepts fetched pushed =
     \<lparr>ENABLE_CLOUD_FEATURES = True, has_window = True, setItem_ok = (\<lambda>_. accepts),
      getSubjectsFromCloud = (\<lambda>_. fetched), syncSubjectsToCloud = (\<lambda>_ _. pushed)\<rparr>"

definition test_grade :: grade where
  "test_grade =
     \<lparr>grade_value = N (Num 2), grade_type = ''Test'', weight = Some (N (Num 2)),
      date = ''2024-01-10''\<rparr>"

definition other_grade :: grade where
  "other_grade =
     \<lparr>grade_value = N (Num 4), grade_type = ''Other'', weight = Some (N (Num 1)),
      date = ''2024-02-10''\<rparr>"

definition legacy_test_grade :: grade where
  "legacy_test_grade =
     \<lparr>grade_value = N (Num 2), grade_type = ''Test'', weight = None, date = ''2024-01-10''\<rparr>"

definition legacy_other_grade :: grade where
  "legacy_other_grade =
     \<lparr>grade_value = N (Num 4), grade_type = ''Other'', weight = None, date = ''2024-02-10''\<rparr>"

definition zero_weight_grade :: grade where
  "zero_weight_grade =
     \<lparr>grade_value = N (Num 2), grade_type = ''Other'', weight = Some (N (Num 0)),
      date = ''2024-01-10''\<rparr>"

definition one_grade :: grade where
  "one_grade =
     \<lparr>grade_value = N (Num 1), grade_type = ''Other'', weight = Some (N (Num 1)),
      date = ''2024-03-01''\<rparr>"

definition one_three_grade :: grade where
  "one_three_grade =
     \<lparr>grade_value = N (decimal (13 / 10)), grade_type = ''Other'', weight = Some (N (Num 1)),
      date = ''2024-03-02''\<rparr>"

text \<open>A subject as an older version stored it: no weights, and the plain mean as average.\<close>

definition math_legacy :: subject where
  "math_legacy =
     \<lparr>subject_id = ''math'', name = ''Mathematics'',
      grades = Some [legacy_test_grade, legacy_other_grade], averageGrade = Some (N (Num 3))\<rparr>"

definition math_migrated :: subject where
  "math_migrated =
     \<lparr>subject_id = ''math'', name = ''Mathematics'',
      grades = Some [test_grade, other_grade], averageGrade = Some (N (decimal (267 / 100)))\<rparr>"

definition math_other_only :: subject where
  "math_other_only =
     \<lparr>subject_id = ''math'', name = ''Mathematics'',
      grades = Some [other_grade], averageGrade = Some (N (Num 4))\<rparr>"

definition physics_cloud :: subject where
  "physics_cloud =
     \<lparr>subject_id = ''physics'', name = ''Physics'', grades = Some [], averageGrade = None\<rparr>"

definition legacy_world :: world where
  "legacy_world = \<lparr>storage = Some (SubjectArray [math_legacy]), events = [], pending = []\<rparr>"

definition migrated_world :: world where
  "migrated_world = \<lparr>storage = Some (SubjectArray [math_migrated]), events = [], pending = []\<rparr>"

definition empty_world :: world where
  "empty_world = \<lparr>storage = None, events = [], pending = []\<rparr>"

definition physics_world :: world where
  "physics_world = \<lparr>storage = Some (SubjectArray [physics_cloud]), events = [], pending = []\<rparr>"

section \<open>Auxiliary facts\<close>

subsection \<open>The accumulation of calculateAverage\<close>

lemma foldl_reduce_step:
  "foldl reduce_step a gs =
     \<lparr>weightedSum = foldl js_add (weightedSum a)
        (map (\<lambda>g. js_mul (toNumber (grade_value g)) (weight_or_default g)) gs),
      totalWeight = foldl js_add (totalWeight a) (map weight_or_default gs)\<rparr>"
  by (induction gs arbitrary: a) (simp_all add: reduce_step_def Let_def)

subsection \<open>saveSubjectsToStorage in closed form\<close>

lemma save_eq:
  "saveSubjectsToStorage e ss u s w =
     (if has_window e \<and> setItem_ok e (JSON_stringify ss)
      then (Returns True, w\<lparr>storage := Some (JSON_stringify ss),
                events := events w @ SubjectsUpdated # degraded_sync e ss u s\<rparr>)
      else (Returns False, w))"
proof (cases "has_window e \<and> setItem_ok e (JSON_stringify ss)")
  case False
  then show ?thesis
    by (auto simp: saveSubjectsToStorage_def save_before_await_def tryCatch_def andThen_def
        localStorage_setItem_def returns_def Let_def)
next
  case True
  show ?thesis
  proof (cases "cloud_user e u s")
    case None
    with True show ?thesis
      by (simp add: saveSubjectsToStorage_def save_before_await_def tryCatch_def andThen_def
          localStorage_setItem_def returns_def Let_def notifySubjectsUpdated_def
          window_dispatchEvent_def degraded_sync_def)
  next
    case (Some uid)
    show ?thesis
    proof (cases "syncSubjectsToCloud e uid ss")
      case (Returns b)
      with True Some show ?thesis
        by (cases b)
          (simp_all add: saveSubjectsToStorage_def save_before_await_def save_cloud_push_def
            tryCatch_def andThen_def localStorage_setItem_def returns_def Let_def
            notifySubjectsUpdated_def window_dispatchEvent_def degraded_sync_def call_def)
    next
      case Throws
      with True Some show ?thesis
        by (simp add: saveSubjectsToStorage_def save_before_await_def save_cloud_push_def
            tryCatch_def andThen_def localStorage_setItem_def returns_def Let_def
            notifySubjectsUpdated_def window_dispatchEvent_def degraded_sync_def call_def)
    qed
  qed
qed

lemma save_fst:
  "fst (saveSubjectsToStorage e ss u s w) = Returns (has_window e \<and> setItem_ok e (JSON_stringify ss))"
  by (simp add: save_eq)

lemma setItem_fst:
  "(fst (localStorage_setItem e doc w) = Returns ()) = (has_window e \<and> setItem_ok e doc)"
  by (simp add: localStorage_setItem_def)

text \<open>The dropped save: the same write and notification, the degraded-sync event pending.\<close>

lemma dropped_save_eq:
  "dropped_save e ss u s w =
     (Returns (),
      if has_window e \<and> setItem_ok e (JSON_stringify ss)
      then w\<lparr>storage := Some (JSON_stringify ss), events := events w @ [SubjectsUpdated],
               pending := pending w @ degraded_sync e ss u s\<rparr>
      else w)"
proof (cases "has_window e \<and> setItem_ok e (JSON_stringify ss)")
  case False
  then show ?thesis
    by (auto simp: dropped_save_def save_before_await_def andThen_def localStorage_setItem_def
        Let_def)
next
  case True
  show ?thesis
  proof (cases "cloud_user e u s")
    case None
    with True show ?thesis
      by (simp add: dropped_save_def save_before_await_def andThen_def localStorage_setItem_def
          returns_def Let_def notifySubjectsUpdated_def window_dispatchEvent_def
          degraded_sync_def)
  next
    case (Some uid)
    show ?thesis
    proof (cases "syncSubjectsToCloud e uid ss")
      case (Returns b)
      with True Some show ?thesis
        by (cases b)
          (simp_all add: dropped_save_def save_before_await_def save_cloud_push_def
            tryCatch_def andThen_def localStorage_setItem_def returns_def Let_def
            notifySubjectsUpdated_def window_dispatchEvent_def degraded_sync_def call_def)
    next
      case Throws
      with True Some show ?thesis
        by (simp add: dropped_save_def save_before_await_def save_cloud_push_def
            tryCatch_def andThen_def localStorage_setItem_def returns_def Let_def
            notifySubjectsUpdated_def window_dispatchEvent_def degraded_sync_def call_def)
    qed
  qed
qed

lemma andThen_dropped_save:
  "andThen (dropped_save e ss u s) (\<lambda>_. returns x) w = (Returns x, snd (dropped_save e ss u s w))"
  by (simp add: andThen_def dropped_save_eq returns_def)

lemma tryCatch_save:
  "tryCatch (saveSubjectsToStorage e xs u s) h w = saveSubjectsToStorage e xs u s w"
  by (simp add: tryCatch_def save_eq)

subsection \<open>The migration pass on the heap and on values\<close>

lemma map_migrate_fst: "fst (subjects_map_migrate refs h) = refs"
  by (induction refs arbitrary: h) (simp_all add: Let_def split_beta)

lemma migrate_subject_other: "b \<noteq> a \<Longrightarrow> migrate_subject h a b = h b"
  by (simp add: migrate_subject_def Let_def split: option.splits)

lemma migrate_subject_self: "migrate_subject h a a = map_option migrated_subject (h a)"
  by (auto simp: migrate_subject_def migrated_subject_def Let_def split: option.splits)

lemma map_migrate_other: "b \<notin> set refs \<Longrightarrow> snd (subjects_map_migrate refs h) b = h b"
  by (induction refs arbitrary: h) (auto simp: Let_def split_beta migrate_subject_other)

lemma map_migrate_in:
  "distinct refs \<Longrightarrow> b \<in> set refs \<Longrightarrow>
     snd (subjects_map_migrate refs h) b = map_option migrated_subject (h b)"
proof (induction refs arbitrary: h)
  case Nil
  then show ?case by simp
next
  case (Cons a as)
  show ?case
  proof (cases "b = a")
    case True
    with Cons.prems have "b \<notin> set as" by simp
    then have "snd (subjects_map_migrate as (migrate_subject h a)) b = migrate_subject h a b"
      by (rule map_migrate_other)
    with True show ?thesis
      by (simp add: Let_def split_beta migrate_subject_self)
  next
    case False
    with Cons.prems have "b \<in> set as" "distinct as" by auto
    then have "snd (subjects_map_migrate as (migrate_subject h a)) b
                 = map_option migrated_subject (migrate_subject h a b)"
      using Cons.IH by blast
    with False show ?thesis
      by (simp add: Let_def split_beta migrate_subject_other)
  qed
qed

lemma alloc_fst: "fst (alloc ss) = [0..<length ss]"
  by (simp add: alloc_def)

lemma alloc_snd: "a < length ss \<Longrightarrow> snd (alloc ss) a = Some (ss ! a)"
  by (simp add: alloc_def)

lemma map_filter_Some:
  "(\<And>a. a \<in> set refs \<Longrightarrow> h a = Some (f a)) \<Longrightarrow> List.map_filter h refs = map f refs"
  by (induction refs) (simp_all add: List.map_filter_simps)

lemma read_migrated:
  "read_subjects (snd (subjects_map_migrate [0..<length ss] (snd (alloc ss)))) [0..<length ss]
     = map migrated_subject ss"
proof -
  have "read_subjects (snd (subjects_map_migrate [0..<length ss] (snd (alloc ss)))) [0..<length ss]
          = map (\<lambda>a. migrated_subject (ss ! a)) [0..<length ss]"
    unfolding read_subjects_def
    by (rule map_filter_Some) (simp add: map_migrate_in alloc_snd)
  also have "\<dots> = map migrated_subject (map ((!) ss) [0..<length ss])"
    by (simp only: map_map o_def)
  also have "\<dots> = map migrated_subject ss"
    by (simp only: map_nth)
  finally show ?thesis .
qed

lemma migration_pass_eq: "migration_pass ss = map migrated_subject ss"
  by (simp add: migration_pass_def split_beta Let_def alloc_fst map_migrate_fst read_migrated)

lemma migrate_grade_idem: "migrate_grade (migrate_grade g) = migrate_grade g"
  by (simp add: migrate_grade_def)

lemma migrate_grade_comp: "migrate_grade \<circ> migrate_grade = migrate_grade"
  by (rule ext) (simp add: migrate_grade_idem)

lemma migrated_subject_idem: "migrated_subject (migrated_subject s) = migrated_subject s"
  by (auto simp: migrated_subject_def migrate_grade_comp split: option.splits)

lemma migrated_subject_id: "subject_id (migrated_subject s) = subject_id s"
  by (simp add: migrated_subject_def split: option.splits)

subsection \<open>getSubjectsFromStorage in closed form\<close>

lemma local_block_stored:
  assumes "has_window e" "storage w = Some (SubjectArray ss)" "ss \<noteq> []"
  shows "local_block e u s w = (Returns (map migrated_subject ss), w)"
  using assms
  by (simp add: local_block_def andThen_def localStorage_getItem_def split_beta Let_def alloc_fst
      map_migrate_fst read_migrated returns_def)

lemma cloud_block_eq:
  "cloud_block e u s w =
     (case cloud_user e u s of
        None \<Rightarrow> (Returns None, w)
      | Some uid \<Rightarrow>
          (case getSubjectsFromCloud e uid of
             Returns (CloudArray cs) \<Rightarrow>
               (if cs \<noteq> [] \<and> has_window e \<and> setItem_ok e (JSON_stringify cs)
                then (Returns (Some cs), w\<lparr>storage := Some (JSON_stringify cs)\<rparr>)
                else (Returns None, w))
           | _ \<Rightarrow> (Returns None, w)))"
  by (simp add: cloud_block_def tryCatch_def andThen_def call_def returns_def Let_def
      localStorage_setItem_def split: option.splits outcome.splits cloud_value.splits)

lemma local_block_eq:
  "local_block e u s w =
     (if \<not> has_window e then (Returns initializeSubjects, w)
      else (case storage w of
              Some (SubjectArray ss) \<Rightarrow>
                (if ss \<noteq> [] then (Returns (map migrated_subject ss), w)
                 else reset_to_defaults e u s w)
            | _ \<Rightarrow> reset_to_defaults e u s w))"
proof (cases "has_window e")
  case False
  then show ?thesis by (simp add: local_block_def returns_def)
next
  case True
  show ?thesis
  proof (cases "storage w")
    case None
    with True show ?thesis
      by (simp add: local_block_def andThen_def[of "localStorage_getItem e"]
          localStorage_getItem_def andThen_dropped_save reset_to_defaults_def)
  next
    case (Some doc)
    show ?thesis
    proof (cases doc)
      case (SubjectArray ss)
      show ?thesis
      proof (cases "ss = []")
        case True
        with \<open>has_window e\<close> Some SubjectArray show ?thesis
          by (simp add: local_block_def andThen_def[of "localStorage_getItem e"]
              localStorage_getItem_def andThen_dropped_save reset_to_defaults_def)
      next
        case False
        with \<open>has_window e\<close> Some SubjectArray show ?thesis
          by (simp add: local_block_stored)
      qed
    qed (use True Some in \<open>simp_all add: local_block_def
              andThen_def[of "localStorage_getItem e"] localStorage_getItem_def
              andThen_dropped_save reset_to_defaults_def\<close>)
  qed
qed

lemma load_eq:
  "getSubjectsFromStorage e u s w =
     (case cloud_block e u s w of
        (Returns (Some cs), w') \<Rightarrow> (Returns cs, w')
      | (_, w') \<Rightarrow> local_block e u s w')"
  by (simp add: getSubjectsFromStorage_def tryCatch_def andThen_def returns_def cloud_block_eq
      local_block_eq reset_to_defaults_def
      split: option.splits outcome.splits cloud_value.splits document.splits)

lemma load_returns: "\<exists>ss. fst (getSubjectsFromStorage e u s w) = Returns ss"
  by (simp add: load_eq cloud_block_eq local_block_eq reset_to_defaults_def
      split: option.splits outcome.splits cloud_value.splits document.splits)

lemma local_block_fst: "fst (local_block e u s w) = fst (local_block e u' s' w)"
  by (simp add: local_block_eq reset_to_defaults_def split: option.splits document.splits)

lemma load_local_stored:
  "has_window e \<Longrightarrow> cloud_user e u s = None \<Longrightarrow> storage w = Some (SubjectArray ss) \<Longrightarrow>
   ss \<noteq> [] \<Longrightarrow> getSubjectsFromStorage e u s w = (Returns (map migrated_subject ss), w)"
  by (simp add: load_eq cloud_block_eq local_block_eq)

subsection \<open>Array helpers\<close>

lemma findIndex_None: "findIndex P xs = None \<longleftrightarrow> (\<forall>x \<in> set xs. \<not> P x)"
  by (induction xs) auto

lemma findIndex_first:
  "\<forall>x \<in> set pre. \<not> P x \<Longrightarrow> P x \<Longrightarrow> findIndex P (pre @ x # post) = Some (length pre)"
  by (induction pre) auto

lemma found_first:
  assumes "subjectid \<notin> subject_id ` set pre" "subject_id s = subjectid"
  shows "findIndex (\<lambda>s. subject_id s = subjectid) (pre @ s # post) = Some (length pre)"
proof (rule findIndex_first)
  show "\<forall>x\<in>set pre. \<not> subject_id x = subjectid" using assms(1) by blast
  show "subject_id s = subjectid" by (rule assms(2))
qed

lemma filter_index_all: "(\<And>i. p i) \<Longrightarrow> filter_index p k xs = xs"
  by (induction xs arbitrary: k) auto

lemma filter_index_neq:
  "filter_index (\<lambda>i. i \<noteq> j) k xs =
     (if j < k then xs else take (j - k) xs @ drop (Suc (j - k)) xs)"
proof (induction xs arbitrary: k)
  case Nil
  then show ?case by simp
next
  case (Cons x xs)
  show ?case
  proof (cases "k = j")
    case True
    then show ?thesis by (simp add: Cons.IH)
  next
    case False
    then show ?thesis
      by (cases "j < k") (auto simp: Cons.IH Suc_diff_Suc take_Cons' drop_Cons')
  qed
qed

lemma strict_eq_index:
  "strict_eq (Num (of_nat i)) idx =
     (idx = Num (of_nat i) \<or> (i = 0 \<and> idx = NegZero))"
  by (cases idx) (auto simp: strict_eq_def)

lemma grade_position_Some:
  assumes "grade_position idx = Some k"
  shows "(\<not> strict_eq (Num (of_nat i)) idx) = (i \<noteq> k)"
proof (cases "idx = NegZero")
  case True
  with assms show ?thesis
    by (auto simp: strict_eq_index grade_position_def)
next
  case False
  with assms obtain r where r: "idx = Num r" "0 \<le> r" "r = rat_of_int \<lfloor>r\<rfloor>" "k = nat \<lfloor>r\<rfloor>"
    by (auto simp: grade_position_def split: number.splits if_splits)
  have "0 \<le> \<lfloor>r\<rfloor>" using r(2) by simp
  have "(rat_of_nat i = r) = (int i = \<lfloor>r\<rfloor>)"
  proof
    assume "rat_of_nat i = r"
    then have "\<lfloor>r\<rfloor> = \<lfloor>rat_of_nat i\<rfloor>" by simp
    then show "int i = \<lfloor>r\<rfloor>" by simp
  next
    assume "int i = \<lfloor>r\<rfloor>"
    then have "rat_of_int (int i) = rat_of_int \<lfloor>r\<rfloor>" by simp
    with r(3) show "rat_of_nat i = r" by simp
  qed
  moreover have "(int i = \<lfloor>r\<rfloor>) = (i = k)"
    using \<open>0 \<le> \<lfloor>r\<rfloor>\<close> r(4) by auto
  ultimately have "(rat_of_nat i = r) = (i = k)" by simp
  then show ?thesis by (auto simp: strict_eq_index r(1))
qed

lemma grade_position_None:
  assumes "grade_position idx = None"
  shows "\<not> strict_eq (Num (of_nat i)) idx"
proof
  assume "strict_eq (Num (of_nat i)) idx"
  then have "idx = Num (of_nat i) \<or> idx = NegZero"
    by (auto simp: strict_eq_index)
  then have "grade_position idx \<noteq> None"
    by (auto simp: grade_position_def)
  with assms show False by simp
qed

lemma filter_index_remove_at:
  "filter_index (\<lambda>i. \<not> strict_eq (Num (of_nat i)) idx) 0 xs = remove_at idx xs"
proof (cases "grade_position idx")
  case None
  then show ?thesis
    by (simp add: remove_at_def grade_position_None filter_index_all)
next
  case (Some k)
  then show ?thesis
    by (simp add: remove_at_def grade_position_Some filter_index_neq)
qed

lemma remove_at_absent: "index_absent idx xs \<Longrightarrow> remove_at idx xs = xs"
  by (simp add: index_absent_def remove_at_def split: option.splits)

subsection \<open>deleteGradeFromSubject after the load\<close>

lemma tryCatch_andThen_load:
  "getSubjectsFromStorage e u s w = (Returns subjects, w1) \<Longrightarrow>
   tryCatch (andThen (getSubjectsFromStorage e u s) f) h w = tryCatch (f subjects) h w1"
  by (simp add: tryCatch_def andThen_def)

lemma delete_unfold:
  assumes "getSubjectsFromStorage e userId syncEnabled w = (Returns subjects, w1)"
  shows "deleteGradeFromSubject e subjectid gradeIndex userId syncEnabled w =
     (case findIndex (\<lambda>s. subject_id s = subjectid) subjects of
        None \<Rightarrow> (Returns False, w1)
      | Some i \<Rightarrow>
          (case grades (subjects ! i) of
             None \<Rightarrow> (Returns True, w1)
           | Some gs \<Rightarrow>
               (if gs = [] then (Returns True, w1)
                else saveSubjectsToStorage e
                       (subjects[i := (subjects ! i)\<lparr>grades := Some (remove_at gradeIndex gs),
                          averageGrade :=
                            Some (N (calculateAverage (Some (remove_at gradeIndex gs))))\<rparr>])
                       userId syncEnabled w1)))"
proof (cases "findIndex (\<lambda>s. subject_id s = subjectid) subjects")
  case None
  then show ?thesis
    unfolding deleteGradeFromSubject_def tryCatch_andThen_load[OF assms]
    by (simp add: tryCatch_def returns_def)
next
  case (Some i)
  show ?thesis
  proof (cases "grades (subjects ! i)")
    case None
    with Some show ?thesis
      unfolding deleteGradeFromSubject_def tryCatch_andThen_load[OF assms]
      by (simp add: tryCatch_def returns_def)
  next
    case (Some gs)
    show ?thesis
    proof (cases "gs = []")
      case True
      with Some \<open>findIndex _ _ = Some i\<close> show ?thesis
        unfolding deleteGradeFromSubject_def tryCatch_andThen_load[OF assms]
        by (simp add: tryCatch_def returns_def)
    next
      case False
      with Some \<open>findIndex _ _ = Some i\<close> show ?thesis
        unfolding deleteGradeFromSubject_def tryCatch_andThen_load[OF assms]
        by (simp add: Let_def filter_index_remove_at tryCatch_save)
    qed
  qed
qed

subsection \<open>Serialisation of well-formed collections\<close>

lemma wire_num_finite: "finite_prop p \<Longrightarrow> wire_num p = p"
  by (cases p rule: finite_prop.cases) simp_all

lemma wire_grade_well_formed: "well_formed_grade g \<Longrightarrow> wire_grade g = g"
  by (cases "weight g") (simp_all add: well_formed_grade_def wire_grade_def wire_num_finite)

lemma wire_subject_well_formed:
  assumes "well_formed_subject s"
  shows "wire_subject s = s"
proof -
  have g: "map_option (map wire_grade) (grades s) = grades s"
  proof (cases "grades s")
    case None
    then show ?thesis by simp
  next
    case (Some gs)
    with assms have "list_all well_formed_grade gs"
      by (simp add: well_formed_subject_def)
    then have "map wire_grade gs = gs"
      by (induction gs) (simp_all add: wire_grade_well_formed)
    with Some show ?thesis by simp
  qed
  have a: "map_option wire_num (averageGrade s) = averageGrade s"
    using assms
    by (cases "averageGrade s") (simp_all add: well_formed_subject_def wire_num_finite)
  show ?thesis by (simp add: wire_subject_def g a)
qed

subsection \<open>Values at the concrete data\<close>

text \<open>
  The arithmetic at work: 3 + 1.3 is the number just below 4.3, a zero over a negative
  number is the negative zero, which \<^verbatim>\<open>toFixed\<close> prints without sign, and a division
  by zero gives an infinity or \<^verbatim>\<open>NaN\<close>.
\<close>

lemma binary64_examples:
  "js_add (Num 3) (decimal (13 / 10)) = Num (4841369599423283 / 1125899906842624)"
  "js_div (Num 0) (Num (- 3)) = NegZero"
  "toFixed2 NegZero = Num 0"
  "js_div (Num 1) (Num 0) = PosInf"
  "js_div (Num 0) (Num 0) = NaN"
  by code_simp+

lemma average_test_other:
  "calculateAverage (Some [test_grade, other_grade]) = decimal (267 / 100)"
  by code_simp

lemma average_other: "calculateAverage (Some [other_grade]) = Num 4"
  by code_simp

lemma average_zero_other: "calculateAverage (Some [zero_weight_grade, other_grade]) = Num 3"
  by code_simp

lemma average_zero_alone: "calculateAverage (Some [zero_weight_grade]) = Num 2"
  by code_simp

lemma spec_average_zero_other: "spec_computeAverage [zero_weight_grade, other_grade] = Num 4"
  by code_simp

lemma average_ones_one_three:
  "calculateAverage (Some [one_grade, one_grade, one_grade, one_three_grade])
     = decimal (107 / 100)"
  by code_simp

lemma exact_average_ones_one_three:
  "exact_computeAverage [one_grade, one_grade, one_grade, one_three_grade] = 108 / 100"
  by code_simp

lemma decimal_107_108: "decimal (107 / 100) \<noteq> decimal (108 / 100)"
  by code_simp

lemma migrate_legacy_grades:
  "migrate_grade legacy_test_grade = test_grade"
  "migrate_grade legacy_other_grade = other_grade"
  "migrate_grade test_grade = test_grade"
  "migrate_grade other_grade = other_grade"
  by (simp_all add: migrate_grade_def legacy_test_grade_def legacy_other_grade_def
      test_grade_def other_grade_def)

lemma migrated_math_legacy: "migrated_subject math_legacy = math_migrated"
  by (simp add: migrated_subject_def math_legacy_def math_migrated_def migrate_legacy_grades
      average_test_other)

lemma migrated_math_migrated: "migrated_subject math_migrated = math_migrated"
  by (simp add: migrated_subject_def math_migrated_def migrate_legacy_grades
      average_test_other)

lemma stringify_math_legacy: "JSON_stringify [math_legacy] = SubjectArray [math_legacy]"
  by code_simp

lemma stringify_math_migrated: "JSON_stringify [math_migrated] = SubjectArray [math_migrated]"
  by code_simp

lemma math_migrated_neq_legacy: "math_migrated \<noteq> math_legacy"
  by (simp add: math_migrated_def math_legacy_def legacy_test_grade_def test_grade_def)

lemma average_legacy:
  "calculateAverage (Some [legacy_test_grade, legacy_other_grade]) = Num 3"
  by code_simp

lemma math_migrated_fields:
  "subject_id math_migrated = ''math''"
  "grades math_migrated = Some [test_grade, other_grade]"
  "math_migrated\<lparr>averageGrade := Some (N (calculateAverage (Some [test_grade, other_grade])))\<rparr>
     = math_migrated"
  "math_migrated\<lparr>grades := Some [test_grade, other_grade],
      averageGrade := Some (N (calculateAverage (Some [test_grade, other_grade])))\<rparr>
     = math_migrated"
  by (simp_all add: math_migrated_def average_test_other)

lemma browser_env_simps:
  "has_window browser_env" "\<not> ENABLE_CLOUD_FEATURES browser_env"
  "setItem_ok browser_env doc" "cloud_user browser_env u s = None"
  by (simp_all add: browser_env_def cloud_user_def split: option.splits)

lemma load_legacy:
  "getSubjectsFromStorage browser_env None None legacy_world
     = (Returns [math_migrated], legacy_world)"
  using load_local_stored[of browser_env None None legacy_world "[math_legacy]"]
  by (simp add: browser_env_simps legacy_world_def migrated_math_legacy)

lemma load_migrated:
  "getSubjectsFromStorage browser_env None None migrated_world
     = (Returns [math_migrated], migrated_world)"
  using load_local_stored[of browser_env None None migrated_world "[math_migrated]"]
  by (simp add: browser_env_simps migrated_world_def migrated_math_migrated)

lemma save_math_migrated:
  "saveSubjectsToStorage browser_env [math_migrated] None None w
     = (Returns True, w\<lparr>storage := Some (SubjectArray [math_migrated]),
                        events := events w @ [SubjectsUpdated]\<rparr>)"
  by (simp add: save_eq browser_env_simps stringify_math_migrated degraded_sync_def)

section \<open>The claims\<close>

subsection \<open>The weighted average\<close>

text \<open>
  C1, as amended. \<^verbatim>\<open>calculateAverage\<close> returns 0 for an absent or empty sequence of
  grades. For a non-empty sequence it returns
  \<open>round2 (\<Sum> value\<^sub>i \<times> weight\<^sub>i / \<Sum> weight\<^sub>i)\<close> as binary64 arithmetic computes it: each
  product is rounded, the two sums are accumulated from 0 in the order of the
  sequence with every partial sum rounded, the quotient is rounded, and \<open>round2\<close> is
  \<^verbatim>\<open>Number.parseFloat(x.toFixed(2))\<close>. Here \<open>weight\<^sub>i\<close> is the explicit weight of the grade
  when that weight is truthy and 1.0 when the weight is absent or falsy (0, \<^verbatim>\<open>NaN\<close>,
  \<^verbatim>\<open>null\<close>). When no grade carries an explicit falsy weight, this is the formula of the
  specification in that arithmetic, whose weight defaults to 1.0 for absent weights
  only. The function is total and reads nothing but its argument.
\<close>

theorem calculateAverage_weighted_average:
  "calculateAverage None = Num 0 \<and> calculateAverage (Some []) = Num 0 \<and>
   (gs \<noteq> [] \<longrightarrow> calculateAverage (Some gs) = weighted_average weight_or_default gs) \<and>
   ((\<forall>g \<in> set gs. \<forall>w. weight g = Some w \<longrightarrow> truthy w) \<longrightarrow>
      calculateAverage (Some gs) = spec_computeAverage gs)"
proof -
  have code: "calculateAverage (Some gs) = weighted_average weight_or_default gs" if "gs \<noteq> []"
    using that
    by (simp add: calculateAverage_def foldl_reduce_step weighted_average_def js_sum_def Let_def)
  have spec: "calculateAverage (Some gs) = spec_computeAverage gs"
    if h: "\<forall>g \<in> set gs. \<forall>w. weight g = Some w \<longrightarrow> truthy w"
  proof (cases "gs = []")
    case True
    then show ?thesis by (simp add: calculateAverage_def spec_computeAverage_def)
  next
    case False
    have pw: "spec_weight g = weight_or_default g" if "g \<in> set gs" for g
      using h that by (auto simp: spec_weight_def weight_or_default_def split: option.splits)
    have "weighted_average spec_weight gs = weighted_average weight_or_default gs"
      by (simp add: weighted_average_def pw cong: map_cong)
    with False code show ?thesis
      by (simp add: spec_computeAverage_def)
  qed
  show ?thesis using code spec
    by (simp add: calculateAverage_def)
qed

text \<open>
  The example of the specification: a test graded 2.0 with weight 2.0 and another grade
  of 4.0 with weight 1.0 average to 2.67.
\<close>

theorem calculateAverage_weighted_average_witness:
  "[test_grade, other_grade] \<noteq> [] \<and>
   weight test_grade = Some (N (Num 2)) \<and> truthy (N (Num 2)) \<and>
   weight other_grade = Some (N (Num 1)) \<and> truthy (N (Num 1)) \<and>
   calculateAverage (Some [test_grade, other_grade])
     = weighted_average weight_or_default [test_grade, other_grade] \<and>
   calculateAverage (Some [test_grade, other_grade])
     = spec_computeAverage [test_grade, other_grade] \<and>
   calculateAverage (Some [test_grade, other_grade]) = decimal (267 / 100)"
proof -
  have h1: "[test_grade, other_grade] \<noteq> []" by simp
  have h2: "\<forall>g \<in> set [test_grade, other_grade]. \<forall>w. weight g = Some w \<longrightarrow> truthy w"
    by (simp add: test_grade_def other_grade_def)
  have v: "calculateAverage (Some [test_grade, other_grade]) = decimal (267 / 100)"
    by (rule average_test_other)
  from calculateAverage_weighted_average[of "[test_grade, other_grade]"] h1 h2
  have "calculateAverage (Some [test_grade, other_grade])
          = weighted_average weight_or_default [test_grade, other_grade]"
    and "calculateAverage (Some [test_grade, other_grade])
          = spec_computeAverage [test_grade, other_grade]"
    by blast+
  with v show ?thesis by (simp add: test_grade_def other_grade_def)
qed

text \<open>
  C1 as it is worded fails on a grade with the explicit weight 0: the formula of the
  specification leaves the grade of 2.0 out and gives 4, the source counts it with
  weight 1.0 and gives 3. And the formula fails as an exact one: for the grades 1, 1, 1
  and 1.3 of weight 1.0 the exact average is above 1.075 and rounds to 1.08, while the
  source adds 3 and 1.3 to the number just below 4.3, divides to the number just below
  1.075 and returns 1.07.
\<close>

theorem calculateAverage_zero_weight_counterexample:
  "calculateAverage (Some [zero_weight_grade, other_grade]) = Num 3 \<and>
   spec_computeAverage [zero_weight_grade, other_grade] = Num 4 \<and>
   calculateAverage (Some [zero_weight_grade, other_grade])
     \<noteq> spec_computeAverage [zero_weight_grade, other_grade] \<and>
   calculateAverage (Some [one_grade, one_grade, one_grade, one_three_grade])
     = decimal (107 / 100) \<and>
   exact_computeAverage [one_grade, one_grade, one_grade, one_three_grade] = 108 / 100 \<and>
   decimal (107 / 100) \<noteq> decimal (108 / 100)"
proof -
  have "calculateAverage (Some [zero_weight_grade, other_grade])
          \<noteq> spec_computeAverage [zero_weight_grade, other_grade]"
    by (simp add: average_zero_other spec_average_zero_other)
  then show ?thesis
    by (intro conjI average_zero_other spec_average_zero_other average_ones_one_three
        exact_average_ones_one_three decimal_107_108)
qed

text \<open>
  C10. \<^verbatim>\<open>calculateAverage\<close> treats a falsy explicit weight as 1.0. Wherever a grade whose
  weight is 0 (or \<^verbatim>\<open>NaN\<close>, or \<^verbatim>\<open>null\<close>) stands in the sequence, the result is \<open>round2\<close> of
  the quotient of two sums in which that grade adds its value times 1.0 to the weighted
  sum and 1.0 to the total weight, between the contributions of the grades before it
  and those of the grades after it. The grade is not left out: alone in the sequence
  it is averaged with weight 1.0.
\<close>

theorem calculateAverage_falsy_weight:
  assumes "weight g = Some w" and "\<not> truthy w"
  shows "calculateAverage (Some (xs @ g # ys)) =
           toFixed2 (js_div
             (foldl js_add
                (js_add
                   (js_sum (map (\<lambda>h. js_mul (toNumber (grade_value h)) (weight_or_default h)) xs))
                   (js_mul (toNumber (grade_value g)) (Num 1)))
                (map (\<lambda>h. js_mul (toNumber (grade_value h)) (weight_or_default h)) ys))
             (foldl js_add
                (js_add (js_sum (map weight_or_default xs)) (Num 1))
                (map weight_or_default ys))) \<and>
         calculateAverage (Some [g]) =
           toFixed2 (js_div (js_add (Num 0) (js_mul (toNumber (grade_value g)) (Num 1)))
                            (js_add (Num 0) (Num 1))) \<and>
         reduce_step a g =
           \<lparr>weightedSum = js_add (weightedSum a) (js_mul (toNumber (grade_value g)) (Num 1)),
            totalWeight = js_add (totalWeight a) (Num 1)\<rparr>"
proof -
  have w: "weight_or_default g = Num 1"
    using assms by (simp add: weight_or_default_def)
  have general: "calculateAverage (Some (us @ g # vs)) =
           toFixed2 (js_div
             (foldl js_add
                (js_add
                   (js_sum (map (\<lambda>h. js_mul (toNumber (grade_value h)) (weight_or_default h)) us))
                   (js_mul (toNumber (grade_value g)) (Num 1)))
                (map (\<lambda>h. js_mul (toNumber (grade_value h)) (weight_or_default h)) vs))
             (foldl js_add
                (js_add (js_sum (map weight_or_default us)) (Num 1))
                (map weight_or_default vs)))" for us vs
    by (simp add: calculateAverage_def foldl_reduce_step js_sum_def Let_def reduce_step_def w)
  have single: "calculateAverage (Some [g]) =
           toFixed2 (js_div (js_add (Num 0) (js_mul (toNumber (grade_value g)) (Num 1)))
                            (js_add (Num 0) (Num 1)))"
    using general[of "[]" "[]"] by (simp add: js_sum_def)
  have step: "reduce_step a g =
           \<lparr>weightedSum = js_add (weightedSum a) (js_mul (toNumber (grade_value g)) (Num 1)),
            totalWeight = js_add (totalWeight a) (Num 1)\<rparr>"
    by (simp add: reduce_step_def w Let_def)
  from general[of xs ys] single step show ?thesis by (intro conjI)
qed

text \<open>
  A grade of 2.0 with the explicit weight 0 before a grade of 4.0 with weight 1.0: the
  average is (2 \<times> 1 + 4 \<times> 1) / (1 + 1) = 3, not the 4 that leaving it out would give.
\<close>

theorem calculateAverage_falsy_weight_witness:
  "weight zero_weight_grade = Some (N (Num 0)) \<and> \<not> truthy (N (Num 0)) \<and>
   calculateAverage (Some ([] @ zero_weight_grade # [other_grade])) =
     toFixed2 (js_div
       (foldl js_add
          (js_add
             (js_sum (map (\<lambda>h. js_mul (toNumber (grade_value h)) (weight_or_default h)) []))
             (js_mul (toNumber (grade_value zero_weight_grade)) (Num 1)))
          (map (\<lambda>h. js_mul (toNumber (grade_value h)) (weight_or_default h)) [other_grade]))
       (foldl js_add
          (js_add (js_sum (map weight_or_default [])) (Num 1))
          (map weight_or_default [other_grade]))) \<and>
   calculateAverage (Some [zero_weight_grade, other_grade]) = Num 3 \<and>
   calculateAverage (Some [zero_weight_grade]) = Num 2 \<and>
   calculateAverage (Some [other_grade]) = Num 4"
proof -
  have h1: "weight zero_weight_grade = Some (N (Num 0))" by (simp add: zero_weight_grade_def)
  have h2: "\<not> truthy (N (Num 0))" by simp
  note v = average_zero_other and v1 = average_zero_alone and v2 = average_other
  from calculateAverage_falsy_weight[OF h1 h2, of "[]" "[other_grade]"]
  have f: "calculateAverage (Some ([] @ zero_weight_grade # [other_grade])) =
     toFixed2 (js_div
       (foldl js_add
          (js_add
             (js_sum (map (\<lambda>h. js_mul (toNumber (grade_value h)) (weight_or_default h)) []))
             (js_mul (toNumber (grade_value zero_weight_grade)) (Num 1)))
          (map (\<lambda>h. js_mul (toNumber (grade_value h)) (weight_or_default h)) [other_grade]))
       (foldl js_add
          (js_add (js_sum (map weight_or_default [])) (Num 1))
          (map weight_or_default [other_grade])))"
    by (rule conjunct1)
  show ?thesis by (intro conjI h1 h2 f v v1 v2)
qed

subsection \<open>The migration pass\<close>

text \<open>
  C9. The migration pass is idempotent: run on its own output it returns that output,
  and run a second time on the objects it has just migrated it changes none of them.
\<close>

theorem migration_pass_idempotent:
  "migration_pass (migration_pass ss) = migration_pass ss \<and>
   subjects_map_migrate (fst (subjects_map_migrate (fst (alloc ss)) (snd (alloc ss))))
       (snd (subjects_map_migrate (fst (alloc ss)) (snd (alloc ss))))
     = subjects_map_migrate (fst (alloc ss)) (snd (alloc ss))"
proof -
  let ?refs = "fst (alloc ss)" and ?h0 = "snd (alloc ss)"
  let ?h1 = "snd (subjects_map_migrate ?refs ?h0)"
  have d: "distinct ?refs" by (simp add: alloc_fst)
  have "snd (subjects_map_migrate ?refs ?h1) b = ?h1 b" for b
  proof (cases "b \<in> set ?refs")
    case True
    then have "snd (subjects_map_migrate ?refs ?h1) b = map_option migrated_subject (?h1 b)"
      using d by (rule map_migrate_in[rotated])
    also have "?h1 b = map_option migrated_subject (?h0 b)"
      using d True by (rule map_migrate_in)
    finally show ?thesis
      using map_migrate_in[OF d True, of ?h0]
      by (simp add: option.map_comp comp_def migrated_subject_idem)
  next
    case False
    then show ?thesis by (simp add: map_migrate_other)
  qed
  then have "snd (subjects_map_migrate ?refs ?h1) = ?h1" by (rule ext)
  then have "subjects_map_migrate ?refs ?h1 = (?refs, ?h1)"
    by (simp add: prod_eq_iff map_migrate_fst)
  then show ?thesis
    by (simp add: migration_pass_eq migrated_subject_idem map_migrate_fst prod_eq_iff)
qed

theorem migration_pass_idempotent_witness:
  "migration_pass [math_legacy] = [math_migrated] \<and>
   migration_pass [math_migrated] = [math_migrated]"
proof -
  have "migration_pass [math_legacy] = [math_migrated]"
    by (simp add: migration_pass_eq migrated_math_legacy)
  with migration_pass_idempotent[of "[math_legacy]"] show ?thesis by simp
qed


subsection \<open>saveSubjectsToStorage\<close>

text \<open>
  C4. \<^verbatim>\<open>saveSubjectsToStorage\<close> never throws. It returns \<^verbatim>\<open>false\<close> exactly when the
  local write throws, and \<^verbatim>\<open>true\<close> otherwise (the serialisation of a typed collection
  does not throw). The cloud push changes neither the result nor the store: compared
  with a save without user, the only difference is the notification of a degraded
  synchronisation, dispatched when the local write succeeded and the push was attempted
  and threw or returned \<^verbatim>\<open>false\<close>.
\<close>

theorem saveSubjectsToStorage_result:
  "fst (saveSubjectsToStorage e subjects userId syncEnabled w)
     = Returns (fst (localStorage_setItem e (JSON_stringify subjects) w) = Returns ()) \<and>
   fst (saveSubjectsToStorage e subjects userId syncEnabled w)
     = fst (saveSubjectsToStorage e subjects None None w) \<and>
   storage (snd (saveSubjectsToStorage e subjects userId syncEnabled w))
     = storage (snd (saveSubjectsToStorage e subjects None None w)) \<and>
   events (snd (saveSubjectsToStorage e subjects userId syncEnabled w))
     = events (snd (saveSubjectsToStorage e subjects None None w)) @
       (if fst (localStorage_setItem e (JSON_stringify subjects) w) = Returns ()
        then degraded_sync e subjects userId syncEnabled else []) \<and>
   pending (snd (saveSubjectsToStorage e subjects userId syncEnabled w)) = pending w"
proof -
  have none: "degraded_sync e subjects None None = []"
    by (simp add: degraded_sync_def cloud_user_def)
  show ?thesis
    by (simp add: save_eq setItem_fst none)
qed

theorem saveSubjectsToStorage_result_witness:
  "fst (saveSubjectsToStorage (cloud_env True Throws (Returns False)) [math_legacy]
          (Some ''u1'') (Some True) empty_world) = Returns True \<and>
   storage (snd (saveSubjectsToStorage (cloud_env True Throws (Returns False)) [math_legacy]
          (Some ''u1'') (Some True) empty_world)) = Some (SubjectArray [math_legacy]) \<and>
   events (snd (saveSubjectsToStorage (cloud_env True Throws (Returns False)) [math_legacy]
          (Some ''u1'') (Some True) empty_world)) = [SubjectsUpdated, SyncPreferenceChanged] \<and>
   fst (saveSubjectsToStorage (cloud_env False Throws (Returns True)) [math_legacy]
          (Some ''u1'') (Some True) empty_world) = Returns False"
proof -
  let ?e = "cloud_env True Throws (Returns False)"
  have a: "fst (localStorage_setItem ?e (JSON_stringify [math_legacy]) empty_world) = Returns ()"
    by code_simp
  have b: "saveSubjectsToStorage ?e [math_legacy] None None empty_world
             = (Returns True, \<lparr>storage = Some (SubjectArray [math_legacy]), events = [SubjectsUpdated], pending = []\<rparr>)"
    by code_simp
  have c: "degraded_sync ?e [math_legacy] (Some ''u1'') (Some True) = [SyncPreferenceChanged]"
    by code_simp
  have d: "(fst (localStorage_setItem (cloud_env False Throws (Returns True))
                   (JSON_stringify [math_legacy]) empty_world) = Returns ()) = False"
    by code_simp
  from saveSubjectsToStorage_result[of ?e "[math_legacy]" "Some ''u1''" "Some True" empty_world]
    saveSubjectsToStorage_result[of "cloud_env False Throws (Returns True)" "[math_legacy]"
      "Some ''u1''" "Some True" empty_world]
  show ?thesis
    by (simp only: a b c d) simp
qed

subsection \<open>getSubjectsFromStorage\<close>

text \<open>
  C2. The specification has the load persist the migrated collection whenever the
  migration changed the serialised text. The source compares
  \<^verbatim>\<open>JSON.stringify(subjects)\<close> with \<^verbatim>\<open>JSON.stringify(migratedSubjects)\<close> after the
  callback has assigned to the very objects both arrays refer to, so the two texts are
  always equal and the save is never made. Here the store holds a subject whose grades
  have no weight: the load returns the migrated subject, whose serialisation differs from
  the stored one, and leaves the store and the notifications as they were.
\<close>

theorem getSubjectsFromStorage_does_not_resave:
  "getSubjectsFromStorage browser_env None None legacy_world
     = (Returns [math_migrated], legacy_world) \<and>
   JSON_stringify [math_migrated] \<noteq> JSON_stringify [math_legacy] \<and>
   storage legacy_world = Some (JSON_stringify [math_legacy])"
proof -
  have "JSON_stringify [math_migrated] \<noteq> JSON_stringify [math_legacy]"
    by (simp add: stringify_math_legacy stringify_math_migrated math_migrated_neq_legacy)
  moreover have "storage legacy_world = Some (JSON_stringify [math_legacy])"
    by (simp add: legacy_world_def stringify_math_legacy)
  ultimately show ?thesis
    using load_legacy by simp
qed

text \<open>
  C3, as amended. With the cloud features enabled, a user and an enabled
  synchronisation: when the fetch returns a non-empty array and the write of that array
  to the local store does not throw, the load leaves the array in the local store and
  returns it. When the fetch throws, returns an empty array or something that is not
  an array, or when the write to the local store throws, the load returns what the
  local-only load returns. The load never throws.
\<close>

theorem getSubjectsFromStorage_cloud:
  assumes "cloud_user e userId syncEnabled = Some uid"
  shows "(getSubjectsFromCloud e uid = Returns (CloudArray cs) \<and> cs \<noteq> [] \<and>
          fst (localStorage_setItem e (JSON_stringify cs) w) = Returns () \<longrightarrow>
            getSubjectsFromStorage e userId syncEnabled w
              = (Returns cs, w\<lparr>storage := Some (JSON_stringify cs)\<rparr>)) \<and>
         (getSubjectsFromCloud e uid = Throws \<or>
          getSubjectsFromCloud e uid = Returns CloudNothing \<or>
          getSubjectsFromCloud e uid = Returns CloudNotArray \<or>
          getSubjectsFromCloud e uid = Returns (CloudArray []) \<or>
          (getSubjectsFromCloud e uid = Returns (CloudArray cs) \<and>
           fst (localStorage_setItem e (JSON_stringify cs) w) = Throws) \<longrightarrow>
            fst (getSubjectsFromStorage e userId syncEnabled w)
              = fst (getSubjectsFromStorage e None None w)) \<and>
         (\<exists>ss. fst (getSubjectsFromStorage e userId syncEnabled w) = Returns ss)"
proof (intro conjI impI)
  assume "getSubjectsFromCloud e uid = Returns (CloudArray cs) \<and> cs \<noteq> [] \<and>
          fst (localStorage_setItem e (JSON_stringify cs) w) = Returns ()"
  then show "getSubjectsFromStorage e userId syncEnabled w
              = (Returns cs, w\<lparr>storage := Some (JSON_stringify cs)\<rparr>)"
    using assms by (simp add: load_eq cloud_block_eq setItem_fst)
next
  have local: "getSubjectsFromStorage e None None w = local_block e None None w"
    by (simp add: load_eq cloud_block_eq cloud_user_def)
  assume "getSubjectsFromCloud e uid = Throws \<or>
          getSubjectsFromCloud e uid = Returns CloudNothing \<or>
          getSubjectsFromCloud e uid = Returns CloudNotArray \<or>
          getSubjectsFromCloud e uid = Returns (CloudArray []) \<or>
          (getSubjectsFromCloud e uid = Returns (CloudArray cs) \<and>
           fst (localStorage_setItem e (JSON_stringify cs) w) = Throws)"
  then have "cloud_block e userId syncEnabled w = (Returns None, w)"
    using assms
    by (auto simp: cloud_block_eq localStorage_setItem_def split: if_splits)
  then have "getSubjectsFromStorage e userId syncEnabled w = local_block e userId syncEnabled w"
    by (simp add: load_eq)
  with local show "fst (getSubjectsFromStorage e userId syncEnabled w)
              = fst (getSubjectsFromStorage e None None w)"
    by (simp add: local_block_fst[of e userId syncEnabled w None None])
next
  show "\<exists>ss. fst (getSubjectsFromStorage e userId syncEnabled w) = Returns ss"
    by (rule load_returns)
qed

theorem getSubjectsFromStorage_cloud_witness:
  "cloud_user (cloud_env True (Returns (CloudArray [physics_cloud])) (Returns True))
     (Some ''u1'') (Some True) = Some ''u1'' \<and>
   getSubjectsFromStorage (cloud_env True (Returns (CloudArray [physics_cloud])) (Returns True))
     (Some ''u1'') (Some True) legacy_world
     = (Returns [physics_cloud], \<lparr>storage = Some (SubjectArray [physics_cloud]), events = [], pending = []\<rparr>) \<and>
   cloud_user (cloud_env True Throws (Returns True)) (Some ''u1'') (Some True) = Some ''u1'' \<and>
   fst (getSubjectsFromStorage (cloud_env True Throws (Returns True))
          (Some ''u1'') (Some True) legacy_world) = Returns [math_migrated]"
proof -
  let ?e1 = "cloud_env True (Returns (CloudArray [physics_cloud])) (Returns True)"
  let ?e2 = "cloud_env True Throws (Returns True)"
  have u1: "cloud_user ?e1 (Some ''u1'') (Some True) = Some ''u1''" by code_simp
  have u2: "cloud_user ?e2 (Some ''u1'') (Some True) = Some ''u1''" by code_simp
  have f1: "getSubjectsFromCloud ?e1 ''u1'' = Returns (CloudArray [physics_cloud]) \<and>
            [physics_cloud] \<noteq> [] \<and>
            fst (localStorage_setItem ?e1 (JSON_stringify [physics_cloud]) legacy_world) = Returns ()"
    by code_simp
  have s1: "legacy_world\<lparr>storage := Some (JSON_stringify [physics_cloud])\<rparr>
              = \<lparr>storage = Some (SubjectArray [physics_cloud]), events = [], pending = []\<rparr>"
    by code_simp
  have f2: "getSubjectsFromCloud ?e2 ''u1'' = Throws" by code_simp
  have l2: "fst (getSubjectsFromStorage ?e2 None None legacy_world) = Returns [math_migrated]"
    using load_local_stored[of ?e2 None None legacy_world "[math_legacy]"]
    by (simp add: cloud_env_def cloud_user_def legacy_world_def migrated_math_legacy)
  from getSubjectsFromStorage_cloud[OF u1, of "[physics_cloud]" legacy_world] f1
  have r1: "getSubjectsFromStorage ?e1 (Some ''u1'') (Some True) legacy_world
              = (Returns [physics_cloud], legacy_world\<lparr>storage := Some (JSON_stringify [physics_cloud])\<rparr>)"
    by blast
  from getSubjectsFromStorage_cloud[OF u2, of "[]" legacy_world] f2
  have r2: "fst (getSubjectsFromStorage ?e2 (Some ''u1'') (Some True) legacy_world)
              = fst (getSubjectsFromStorage ?e2 None None legacy_world)"
    by blast
  show ?thesis
    using u1 u2 r1 r2 by (simp only: s1 l2)
qed

text \<open>
  C3 as it is worded fails when the local store refuses the write: the fetch returns a
  non-empty array, the write throws inside the same \<^verbatim>\<open>try\<close> block, and the load returns
  the local collection and leaves the store as it was.
\<close>

theorem getSubjectsFromStorage_cloud_counterexample:
  "cloud_user (cloud_env False (Returns (CloudArray [physics_cloud])) (Returns True))
     (Some ''u1'') (Some True) = Some ''u1'' \<and>
   getSubjectsFromCloud (cloud_env False (Returns (CloudArray [physics_cloud])) (Returns True)) ''u1''
     = Returns (CloudArray [physics_cloud]) \<and>
   [physics_cloud] \<noteq> [] \<and>
   getSubjectsFromStorage (cloud_env False (Returns (CloudArray [physics_cloud])) (Returns True))
     (Some ''u1'') (Some True) migrated_world = (Returns [math_migrated], migrated_world) \<and>
   [math_migrated] \<noteq> [physics_cloud] \<and>
   storage migrated_world \<noteq> Some (JSON_stringify [physics_cloud])"
proof -
  let ?e = "cloud_env False (Returns (CloudArray [physics_cloud])) (Returns True)"
  have u: "cloud_user ?e (Some ''u1'') (Some True) = Some ''u1''" by code_simp
  have f: "getSubjectsFromCloud ?e ''u1'' = Returns (CloudArray [physics_cloud])" by code_simp
  have l: "getSubjectsFromStorage ?e (Some ''u1'') (Some True) migrated_world
             = (Returns [math_migrated], migrated_world)"
    by (simp add: load_eq cloud_block_eq local_block_eq u f)
      (simp add: cloud_env_def migrated_world_def migrated_math_migrated)
  have n: "math_migrated \<noteq> physics_cloud"
    by (simp add: math_migrated_def physics_cloud_def)
  have p: "JSON_stringify [physics_cloud] = SubjectArray [physics_cloud]" by code_simp
  show ?thesis
    using u f l n by (simp add: p migrated_world_def)
qed


subsection \<open>Round trip through the store\<close>

text \<open>
  C8, as amended. With the cloud features disabled, saving a non-empty collection whose
  local write succeeds and loading afterwards returns the migration of what the store
  kept; for a well-formed collection (finite numbers) that is the collection itself
  with, in every subject that has at least one grade, each absent weight set to its
  default (2.0 for a test, 1.0 otherwise) and \<^verbatim>\<open>averageGrade\<close> set to the weighted average
  of the resulting grades, whether it was absent or present before. Subjects without
  grades, identifiers, names, grade values, types, dates and explicit weights come back
  as they were saved.
\<close>

theorem save_then_load:
  assumes "\<not> ENABLE_CLOUD_FEATURES e" and "subjects \<noteq> []"
    and "fst (saveSubjectsToStorage e subjects userId syncEnabled w) = Returns True"
  shows "fst (getSubjectsFromStorage e userId' syncEnabled'
                (snd (saveSubjectsToStorage e subjects userId syncEnabled w)))
           = Returns (map migrated_subject (map wire_subject subjects)) \<and>
         (list_all well_formed_subject subjects \<longrightarrow>
            fst (getSubjectsFromStorage e userId' syncEnabled'
                   (snd (saveSubjectsToStorage e subjects userId syncEnabled w)))
              = Returns (map migrated_subject subjects))"
proof -
  let ?w1 = "snd (saveSubjectsToStorage e subjects userId syncEnabled w)"
  from assms(3) have ok: "has_window e \<and> setItem_ok e (JSON_stringify subjects)"
    by (simp add: save_fst)
  then have st: "storage ?w1 = Some (SubjectArray (map wire_subject subjects))"
    by (simp add: save_eq JSON_stringify_def)
  have nocloud: "cloud_user e userId' syncEnabled' = None"
    using assms(1) by (simp add: cloud_user_def split: option.splits)
  have "getSubjectsFromStorage e userId' syncEnabled' ?w1
          = (Returns (map migrated_subject (map wire_subject subjects)), ?w1)"
    using ok nocloud st assms(2) by (intro load_local_stored) simp_all
  then have first: "fst (getSubjectsFromStorage e userId' syncEnabled' ?w1)
          = Returns (map migrated_subject (map wire_subject subjects))"
    by simp
  show ?thesis
  proof (intro conjI impI)
    show "fst (getSubjectsFromStorage e userId' syncEnabled' ?w1)
            = Returns (map migrated_subject (map wire_subject subjects))"
      by (rule first)
  next
    assume "list_all well_formed_subject subjects"
    then have eq: "map wire_subject subjects = subjects"
      by (induction subjects) (simp_all add: wire_subject_well_formed)
    from first show "fst (getSubjectsFromStorage e userId' syncEnabled' ?w1)
            = Returns (map migrated_subject subjects)"
      by (simp only: eq)
  qed
qed

theorem save_then_load_witness:
  "\<not> ENABLE_CLOUD_FEATURES browser_env \<and> [math_legacy] \<noteq> [] \<and>
   fst (saveSubjectsToStorage browser_env [math_legacy] None None empty_world) = Returns True \<and>
   list_all well_formed_subject [math_legacy] \<and>
   fst (getSubjectsFromStorage browser_env None None
          (snd (saveSubjectsToStorage browser_env [math_legacy] None None empty_world)))
     = Returns (map migrated_subject [math_legacy]) \<and>
   map migrated_subject [math_legacy] = [math_migrated]"
proof -
  have h1: "\<not> ENABLE_CLOUD_FEATURES browser_env" by code_simp
  have h2: "[math_legacy] \<noteq> []" by simp
  have h3: "fst (saveSubjectsToStorage browser_env [math_legacy] None None empty_world) = Returns True"
    by code_simp
  have h4: "list_all well_formed_subject [math_legacy]" by code_simp
  have h5: "map migrated_subject [math_legacy] = [math_migrated]"
    by (simp add: migrated_math_legacy)
  from save_then_load[OF h1 h2 h3, of None None]
  have "list_all well_formed_subject [math_legacy] \<longrightarrow>
          fst (getSubjectsFromStorage browser_env None None
                 (snd (saveSubjectsToStorage browser_env [math_legacy] None None empty_world)))
            = Returns (map migrated_subject [math_legacy])"
    by (rule conjunct2)
  with h4 have r: "fst (getSubjectsFromStorage browser_env None None
                 (snd (saveSubjectsToStorage browser_env [math_legacy] None None empty_world)))
            = Returns (map migrated_subject [math_legacy])"
    by blast
  show ?thesis by (intro conjI h1 h2 h3 h4 r h5)
qed

text \<open>
  C8 as it is worded fails twice. The empty array is saved and the load answers with the
  five default subjects. And a present \<^verbatim>\<open>averageGrade\<close> is overwritten: a subject saved
  with two unweighted grades and their plain mean 3 comes back with the weights 2.0 and
  1.0 and the average 2.67.
\<close>

theorem save_then_load_counterexample:
  "fst (getSubjectsFromStorage browser_env None None
          (snd (saveSubjectsToStorage browser_env [] None None empty_world)))
     = Returns initializeSubjects \<and>
   length initializeSubjects = 5 \<and>
   fst (getSubjectsFromStorage browser_env None None
          (snd (saveSubjectsToStorage browser_env [math_legacy] None None empty_world)))
     = Returns [math_migrated] \<and>
   averageGrade math_legacy = Some (N (calculateAverage (grades math_legacy))) \<and>
   averageGrade math_legacy = Some (N (Num 3)) \<and>
   averageGrade math_migrated = Some (N (decimal (267 / 100)))"
proof -
  have a: "fst (getSubjectsFromStorage browser_env None None
                 (snd (saveSubjectsToStorage browser_env [] None None empty_world)))
             = Returns initializeSubjects"
    by code_simp
  have b: "length initializeSubjects = 5" by (simp add: initializeSubjects_def)
  have sv: "snd (saveSubjectsToStorage browser_env [math_legacy] None None empty_world)
              = \<lparr>storage = Some (SubjectArray [math_legacy]), events = [SubjectsUpdated],
                 pending = []\<rparr>"
    by (simp add: save_eq browser_env_simps stringify_math_legacy degraded_sync_def
        empty_world_def)
  have c: "fst (getSubjectsFromStorage browser_env None None
                 (snd (saveSubjectsToStorage browser_env [math_legacy] None None empty_world)))
             = Returns [math_migrated]"
    unfolding sv
    using load_local_stored[of browser_env None None
        "\<lparr>storage = Some (SubjectArray [math_legacy]), events = [SubjectsUpdated], pending = []\<rparr>"
        "[math_legacy]"]
    by (simp add: browser_env_simps migrated_math_legacy)
  have d: "averageGrade math_legacy = Some (N (calculateAverage (grades math_legacy)))"
    by (simp add: math_legacy_def average_legacy)
  have e: "averageGrade math_legacy = Some (N (Num 3))" by (simp add: math_legacy_def)
  have f: "averageGrade math_migrated = Some (N (decimal (267 / 100)))"
    by (simp add: math_migrated_def)
  show ?thesis by (intro conjI a b c d e f)
qed

subsection \<open>addGradeToSubject and deleteGradeFromSubject\<close>

text \<open>
  C7. When the collection that the load returns has no subject with the given
  identifier, \<^verbatim>\<open>addGradeToSubject\<close> returns \<^verbatim>\<open>false\<close> and does nothing after the load: the
  store and the notifications are those the load left. In particular, when the store
  holds a non-empty collection without that identifier and no cloud fetch is made, the
  store and the notifications are unchanged altogether.
\<close>

theorem addGradeToSubject_unknown_subject:
  "(getSubjectsFromStorage e userId syncEnabled w = (Returns subjects, w1) \<and>
      subjectid \<notin> subject_id ` set subjects \<longrightarrow>
      addGradeToSubject e subjectid g userId syncEnabled w = (Returns False, w1)) \<and>
   (has_window e \<and> cloud_user e userId syncEnabled = None \<and>
      storage w = Some (SubjectArray ss) \<and> ss \<noteq> [] \<and> subjectid \<notin> subject_id ` set ss \<longrightarrow>
      addGradeToSubject e subjectid g userId syncEnabled w = (Returns False, w))"
proof -
  have gen: "addGradeToSubject e subjectid g userId syncEnabled w = (Returns False, w1)"
    if "getSubjectsFromStorage e userId syncEnabled w = (Returns subjects, w1)"
       "subjectid \<notin> subject_id ` set subjects" for subjects w1
  proof -
    from that(2) have "findIndex (\<lambda>s. subject_id s = subjectid) subjects = None"
      by (auto simp: findIndex_None)
    with that(1) show ?thesis
      by (simp add: addGradeToSubject_def tryCatch_def andThen_def returns_def)
  qed
  have "addGradeToSubject e subjectid g userId syncEnabled w = (Returns False, w)"
    if "has_window e" "cloud_user e userId syncEnabled = None"
      "storage w = Some (SubjectArray ss)" "ss \<noteq> []" "subjectid \<notin> subject_id ` set ss"
  proof (rule gen)
    show "getSubjectsFromStorage e userId syncEnabled w = (Returns (map migrated_subject ss), w)"
      using that by (simp add: load_local_stored)
    show "subjectid \<notin> subject_id ` set (map migrated_subject ss)"
      using that(5) by (auto simp: migrated_subject_id)
  qed
  with gen show ?thesis by blast
qed

theorem addGradeToSubject_unknown_subject_witness:
  "getSubjectsFromStorage browser_env None None legacy_world
     = (Returns [math_migrated], legacy_world) \<and>
   ''chem'' \<notin> subject_id ` set [math_migrated] \<and>
   addGradeToSubject browser_env ''chem'' test_grade None None legacy_world
     = (Returns False, legacy_world)"
proof -
  note l = load_legacy
  have n: "''chem'' \<notin> subject_id ` set [math_migrated]"
    by (simp add: math_migrated_def)
  from addGradeToSubject_unknown_subject[of browser_env None None legacy_world
      "[math_migrated]" legacy_world "''chem''" test_grade "[]"] l n
  have "addGradeToSubject browser_env ''chem'' test_grade None None legacy_world
          = (Returns False, legacy_world)"
    by blast
  with l n show ?thesis by blast
qed

text \<open>
  C6. After the load, \<^verbatim>\<open>deleteGradeFromSubject\<close> returns \<^verbatim>\<open>false\<close> and does nothing more
  when no subject has the given identifier. For the first subject with that identifier,
  it returns \<^verbatim>\<open>true\<close> and does nothing more when the grades are absent or empty;
  otherwise it removes the grade at the given position of the grades as loaded,
  recomputes \<^verbatim>\<open>averageGrade\<close> with \<^verbatim>\<open>calculateAverage\<close>, and saves the whole collection
  with that subject replaced, returning the result of the save. The load itself leaves
  the store and the notifications untouched when the store holds a non-empty collection
  and no cloud fetch is made.
\<close>

theorem deleteGradeFromSubject_cases:
  assumes "getSubjectsFromStorage e userId syncEnabled w = (Returns subjects, w1)"
  shows "(subjectid \<notin> subject_id ` set subjects \<longrightarrow>
            deleteGradeFromSubject e subjectid gradeIndex userId syncEnabled w
              = (Returns False, w1)) \<and>
         (subjects = pre @ s # post \<and> subjectid \<notin> subject_id ` set pre \<and>
          subject_id s = subjectid \<longrightarrow>
            ((grades s = None \<or> grades s = Some []) \<longrightarrow>
               deleteGradeFromSubject e subjectid gradeIndex userId syncEnabled w
                 = (Returns True, w1)) \<and>
            (\<forall>gs. grades s = Some gs \<and> gs \<noteq> [] \<longrightarrow>
               deleteGradeFromSubject e subjectid gradeIndex userId syncEnabled w =
                 saveSubjectsToStorage e
                   (pre @ s\<lparr>grades := Some (remove_at gradeIndex gs),
                            averageGrade :=
                              Some (N (calculateAverage (Some (remove_at gradeIndex gs))))\<rparr> # post)
                   userId syncEnabled w1)) \<and>
         (has_window e \<and> cloud_user e userId syncEnabled = None \<and>
          storage w = Some (SubjectArray ss) \<and> ss \<noteq> [] \<longrightarrow> w1 = w)"
proof (intro conjI impI allI)
  assume "has_window e \<and> cloud_user e userId syncEnabled = None \<and>
          storage w = Some (SubjectArray ss) \<and> ss \<noteq> []"
  then have "getSubjectsFromStorage e userId syncEnabled w = (Returns (map migrated_subject ss), w)"
    by (simp add: load_local_stored)
  with assms show "w1 = w" by simp
next
  assume "subjectid \<notin> subject_id ` set subjects"
  then have "findIndex (\<lambda>s. subject_id s = subjectid) subjects = None"
    by (auto simp: findIndex_None)
  then show "deleteGradeFromSubject e subjectid gradeIndex userId syncEnabled w
               = (Returns False, w1)"
    by (simp add: delete_unfold[OF assms])
next
  assume a: "subjects = pre @ s # post \<and> subjectid \<notin> subject_id ` set pre \<and>
             subject_id s = subjectid"
    and b: "grades s = None \<or> grades s = Some []"
  from a have "findIndex (\<lambda>s. subject_id s = subjectid) subjects = Some (length pre)"
    by (simp add: found_first)
  with a b show "deleteGradeFromSubject e subjectid gradeIndex userId syncEnabled w
                   = (Returns True, w1)"
    by (auto simp: delete_unfold[OF assms])
next
  fix gs
  assume a: "subjects = pre @ s # post \<and> subjectid \<notin> subject_id ` set pre \<and>
             subject_id s = subjectid"
    and b: "grades s = Some gs \<and> gs \<noteq> []"
  from a have "findIndex (\<lambda>s. subject_id s = subjectid) subjects = Some (length pre)"
    by (simp add: found_first)
  with a b show "deleteGradeFromSubject e subjectid gradeIndex userId syncEnabled w =
                 saveSubjectsToStorage e
                   (pre @ s\<lparr>grades := Some (remove_at gradeIndex gs),
                            averageGrade :=
                              Some (N (calculateAverage (Some (remove_at gradeIndex gs))))\<rparr> # post)
                   userId syncEnabled w1"
    by (simp add: delete_unfold[OF assms])
qed

theorem deleteGradeFromSubject_cases_witness:
  "getSubjectsFromStorage browser_env None None migrated_world
     = (Returns [math_migrated], migrated_world) \<and>
   ''chem'' \<notin> subject_id ` set [math_migrated] \<and>
   deleteGradeFromSubject browser_env ''chem'' (Num 0) None None migrated_world
     = (Returns False, migrated_world) \<and>
   subject_id math_migrated = ''math'' \<and>
   grades math_migrated = Some [test_grade, other_grade] \<and>
   remove_at (Num 0) [test_grade, other_grade] = [other_grade] \<and>
   deleteGradeFromSubject browser_env ''math'' (Num 0) None None migrated_world
     = (Returns True, \<lparr>storage = Some (SubjectArray [math_other_only]), events = [SubjectsUpdated], pending = []\<rparr>) \<and>
   getSubjectsFromStorage browser_env None None physics_world
     = (Returns [physics_cloud], physics_world) \<and>
   grades physics_cloud = Some [] \<and>
   deleteGradeFromSubject browser_env ''physics'' (Num 0) None None physics_world
     = (Returns True, physics_world)"
proof -
  note l = load_migrated
  have lp: "getSubjectsFromStorage browser_env None None physics_world
             = (Returns [physics_cloud], physics_world)"
    by code_simp
  have n: "''chem'' \<notin> subject_id ` set [math_migrated]"
    by (simp add: math_migrated_def)
  have i: "subject_id math_migrated = ''math''" by (simp add: math_migrated_def)
  have ip: "subject_id physics_cloud = ''physics''" by (simp add: physics_cloud_def)
  have g: "grades math_migrated = Some [test_grade, other_grade]" by (simp add: math_migrated_def)
  have gp: "grades physics_cloud = Some []" by (simp add: physics_cloud_def)
  have r: "remove_at (Num 0) [test_grade, other_grade] = [other_grade]" by code_simp
  have sv: "saveSubjectsToStorage browser_env
              ([] @ math_migrated\<lparr>grades := Some [other_grade],
                       averageGrade := Some (N (calculateAverage (Some [other_grade])))\<rparr> # [])
              None None migrated_world
            = (Returns True, \<lparr>storage = Some (SubjectArray [math_other_only]), events = [SubjectsUpdated], pending = []\<rparr>)"
    by code_simp
  from deleteGradeFromSubject_cases[OF l, of "''chem''" "Num 0" "[]" math_migrated "[]"] n
  have r1: "deleteGradeFromSubject browser_env ''chem'' (Num 0) None None migrated_world
              = (Returns False, migrated_world)"
    by blast
  from deleteGradeFromSubject_cases[OF l, of "''math''" "Num 0" "[]" math_migrated "[]"] i g
  have "deleteGradeFromSubject browser_env ''math'' (Num 0) None None migrated_world
          = saveSubjectsToStorage browser_env
              ([] @ math_migrated\<lparr>grades := Some (remove_at (Num 0) [test_grade, other_grade]),
                       averageGrade := Some (N (calculateAverage
                         (Some (remove_at (Num 0) [test_grade, other_grade]))))\<rparr> # [])
              None None migrated_world"
    by simp
  then have r2: "deleteGradeFromSubject browser_env ''math'' (Num 0) None None migrated_world
          = (Returns True, \<lparr>storage = Some (SubjectArray [math_other_only]), events = [SubjectsUpdated], pending = []\<rparr>)"
    by (simp only: r sv)
  from deleteGradeFromSubject_cases[OF lp, of "''physics''" "Num 0" "[]" physics_cloud "[]"] ip gp
  have r3: "deleteGradeFromSubject browser_env ''physics'' (Num 0) None None physics_world
              = (Returns True, physics_world)"
    by simp
  show ?thesis by (intro conjI l n r1 i g r r2 lp gp r3)
qed

text \<open>
  C5, as amended. On an existing subject with a non-empty grades list, a grade index
  that denotes no position of the list makes \<^verbatim>\<open>deleteGradeFromSubject\<close> remove nothing:
  it recomputes \<^verbatim>\<open>averageGrade\<close> over the same grades, saves the whole collection and
  returns the result of that save, which is \<^verbatim>\<open>true\<close> whenever the local write succeeds.
  No failure is reported for the absent index.
\<close>

theorem deleteGradeFromSubject_index_absent:
  assumes "getSubjectsFromStorage e userId syncEnabled w = (Returns subjects, w1)"
    and "subjects = pre @ s # post" and "subjectid \<notin> subject_id ` set pre"
    and "subject_id s = subjectid"
    and "grades s = Some gs" and "gs \<noteq> []" and "index_absent gradeIndex gs"
  shows "deleteGradeFromSubject e subjectid gradeIndex userId syncEnabled w
           = saveSubjectsToStorage e
               (pre @ s\<lparr>averageGrade := Some (N (calculateAverage (Some gs)))\<rparr> # post)
               userId syncEnabled w1 \<and>
         fst (deleteGradeFromSubject e subjectid gradeIndex userId syncEnabled w)
           = Returns (fst (localStorage_setItem e
               (JSON_stringify (pre @ s\<lparr>averageGrade := Some (N (calculateAverage (Some gs)))\<rparr> # post))
               w1) = Returns ())"
proof -
  have f: "findIndex (\<lambda>s. subject_id s = subjectid) subjects = Some (length pre)"
    using assms(2-4) by (simp add: found_first)
  have same: "s\<lparr>grades := Some gs, averageGrade := Some (N (calculateAverage (Some gs)))\<rparr>
                = s\<lparr>averageGrade := Some (N (calculateAverage (Some gs)))\<rparr>"
    using assms(5) by simp
  have "deleteGradeFromSubject e subjectid gradeIndex userId syncEnabled w
           = saveSubjectsToStorage e
               (pre @ s\<lparr>grades := Some gs,
                        averageGrade := Some (N (calculateAverage (Some gs)))\<rparr> # post)
               userId syncEnabled w1"
    using f assms(2,5,6)
    by (simp add: delete_unfold[OF assms(1)] remove_at_absent[OF assms(7)])
  then have "deleteGradeFromSubject e subjectid gradeIndex userId syncEnabled w
           = saveSubjectsToStorage e
               (pre @ s\<lparr>averageGrade := Some (N (calculateAverage (Some gs)))\<rparr> # post)
               userId syncEnabled w1"
    by (simp only: same)
  then show ?thesis
    by (simp add: save_fst setItem_fst)
qed

theorem deleteGradeFromSubject_index_absent_witness:
  "getSubjectsFromStorage browser_env None None legacy_world
     = (Returns [math_migrated], legacy_world) \<and>
   subject_id math_migrated = ''math'' \<and>
   grades math_migrated = Some [test_grade, other_grade] \<and>
   index_absent (Num 5) [test_grade, other_grade] \<and>
   deleteGradeFromSubject browser_env ''math'' (Num 5) None None legacy_world
     = (Returns True, \<lparr>storage = Some (SubjectArray [math_migrated]), events = [SubjectsUpdated], pending = []\<rparr>)"
proof -
  note l = load_legacy
  have d: "[math_migrated] = [] @ math_migrated # []" by simp
  have n: "''math'' \<notin> subject_id ` set []" by simp
  have i: "subject_id math_migrated = ''math''" by (simp add: math_migrated_def)
  have g: "grades math_migrated = Some [test_grade, other_grade]" by (simp add: math_migrated_def)
  have ne: "[test_grade, other_grade] \<noteq> []" by simp
  have a: "index_absent (Num 5) [test_grade, other_grade]" by code_simp
  have sv: "saveSubjectsToStorage browser_env
              ([] @ math_migrated\<lparr>averageGrade :=
                  Some (N (calculateAverage (Some [test_grade, other_grade])))\<rparr> # [])
              None None legacy_world
            = (Returns True, \<lparr>storage = Some (SubjectArray [math_migrated]), events = [SubjectsUpdated], pending = []\<rparr>)"
    by (simp add: math_migrated_fields save_math_migrated legacy_world_def)
  from deleteGradeFromSubject_index_absent[OF l d n i g ne a]
  have "deleteGradeFromSubject browser_env ''math'' (Num 5) None None legacy_world
          = saveSubjectsToStorage browser_env
              ([] @ math_migrated\<lparr>averageGrade :=
                  Some (N (calculateAverage (Some [test_grade, other_grade])))\<rparr> # [])
              None None legacy_world"
    by (rule conjunct1)
  then have r: "deleteGradeFromSubject browser_env ''math'' (Num 5) None None legacy_world
          = (Returns True, \<lparr>storage = Some (SubjectArray [math_migrated]), events = [SubjectsUpdated], pending = []\<rparr>)"
    by (simp only: sv)
  show ?thesis by (intro conjI l i g a r)
qed

text \<open>
  C5 as it is worded fails: with two grades in the subject and the index 5, the
  operation reports success, and it has replaced the stored collection by the migrated
  one.
\<close>

theorem deleteGradeFromSubject_index_absent_counterexample:
  "getSubjectsFromStorage browser_env None None legacy_world
     = (Returns [math_migrated], legacy_world) \<and>
   grades math_migrated = Some [test_grade, other_grade] \<and>
   grade_position (Num 5) = Some 5 \<and>
   length [test_grade, other_grade] = 2 \<and>
   fst (deleteGradeFromSubject browser_env ''math'' (Num 5) None None legacy_world) = Returns True \<and>
   storage (snd (deleteGradeFromSubject browser_env ''math'' (Num 5) None None legacy_world))
     = Some (SubjectArray [math_migrated]) \<and>
   storage legacy_world = Some (SubjectArray [math_legacy]) \<and>
   math_migrated \<noteq> math_legacy"
proof -
  have a: "index_absent (Num 5) [test_grade, other_grade]" by code_simp
  have p: "grade_position (Num 5) = Some 5" by code_simp
  have "deleteGradeFromSubject browser_env ''math'' (Num 5) None None legacy_world
          = saveSubjectsToStorage browser_env [math_migrated] None None legacy_world"
    using delete_unfold[OF load_legacy, of "''math''" "Num 5"]
    by (simp add: math_migrated_fields remove_at_absent[OF a])
  then have d: "deleteGradeFromSubject browser_env ''math'' (Num 5) None None legacy_world
          = (Returns True, \<lparr>storage = Some (SubjectArray [math_migrated]),
               events = [SubjectsUpdated], pending = []\<rparr>)"
    by (simp add: save_math_migrated legacy_world_def)
  have r: "fst (deleteGradeFromSubject browser_env ''math'' (Num 5) None None legacy_world)
             = Returns True"
    by (simp add: d)
  have st: "storage (snd (deleteGradeFromSubject browser_env ''math'' (Num 5) None None
                            legacy_world))
              = Some (SubjectArray [math_migrated])"
    by (simp add: d)
  have g: "grades math_migrated = Some [test_grade, other_grade]"
    by (rule math_migrated_fields)
  have n: "length [test_grade, other_grade] = 2" by simp
  have sl: "storage legacy_world = Some (SubjectArray [math_legacy])"
    by (simp add: legacy_world_def)
  show ?thesis
    by (intro conjI load_legacy g p n r st sl math_migrated_neq_legacy)
qed


end
